theory Spec2Isabelle
  imports Complex_Main "HOL-Library.Sublist" "HOL-Library.Multiset"
begin

section \<open>JavaScript values and string helpers\<close>

text \<open>
  Strings are byte lists. \<open>toLowerCase\<close> and \<open>toUpperCase\<close> below map the ASCII letters
  and leave every other character as it is: they are \<open>String.prototype.toLowerCase\<close>
  and \<open>toUpperCase\<close> on strings of ASCII characters. The built-ins also map the cased
  letters outside ASCII.
\<close>

definition lowerChar :: "char \<Rightarrow> char" where
  "lowerChar c =
     (case map_of (zip ''ABCDEFGHIJKLMNOPQRSTUVWXYZ'' ''abcdefghijklmnopqrstuvwxyz'') c of
        Some d \<Rightarrow> d | None \<Rightarrow> c)"

definition upperChar :: "char \<Rightarrow> char" where
  "upperChar c =
     (case map_of (zip ''abcdefghijklmnopqrstuvwxyz'' ''ABCDEFGHIJKLMNOPQRSTUVWXYZ'') c of
        Some d \<Rightarrow> d | None \<Rightarrow> c)"

definition toLowerCase :: "string \<Rightarrow> string" where
  "toLowerCase s = map lowerChar s"

definition toUpperCase :: "string \<Rightarrow> string" where
  "toUpperCase s = map upperChar s"

text \<open>\<open>haystack.includes(needle)\<close>: the needle occurs as a contiguous run.\<close>

fun str_includes :: "string \<Rightarrow> string \<Rightarrow> bool" where
  "str_includes [] needle = (needle = [])"
| "str_includes (c # cs) needle = (prefix needle (c # cs) \<or> str_includes cs needle)"

section \<open>Scrape orchestrator: deduplication (home-service-scraper.js)\<close>

text \<open>
  A lead candidate as the three source adapters of \<open>scrapeAllSources\<close> build it. Every
  adapter stores \<open>name\<close> and \<open>address\<close> as (trimmed) strings and drops a card without a
  name, so both fields are strings here. \<open>parseFloat\<close>/\<open>parseInt\<close> may give NaN, which is
  \<open>None\<close>.
\<close>

record candidate =
  name :: string
  rating :: "real option"
  reviewCount :: "int option"
  address :: string
  phone :: string
  website :: string
  source :: string

text \<open>
  The template literal \<open>`${lead.name.toLowerCase()}-${lead.address.toLowerCase()}`\<close>.
  The built-in \<open>String.prototype.toLowerCase\<close> lower-cases every cased letter of Unicode,
  not only the ASCII ones, and its result for a letter can depend on its neighbours; it is
  the parameter \<open>lower\<close> of the key and of the deduplication. On a string of ASCII
  characters the built-in is \<open>toLowerCase\<close> as defined above.
\<close>

definition leadKey :: "(string \<Rightarrow> string) \<Rightarrow> candidate \<Rightarrow> string" where
  "leadKey lower lead = lower (name lead) @ ''-'' @ lower (address lead)"

text \<open>
  \<open>leads.filter(lead => ...)\<close> with the \<open>Set\<close> \<open>seen\<close> that the callback closes over:
  the set is threaded through the traversal.
\<close>

fun dedupFilter :: "(string \<Rightarrow> string) \<Rightarrow> string set \<Rightarrow> candidate list \<Rightarrow> candidate list" where
  "dedupFilter lower seen [] = []"
| "dedupFilter lower seen (lead # leads) =
     (let key = leadKey lower lead in
      if key \<in> seen then dedupFilter lower seen leads
      else lead # dedupFilter lower (insert key seen) leads)"

definition deduplicateLeads :: "(string \<Rightarrow> string) \<Rightarrow> candidate list \<Rightarrow> candidate list" where
  "deduplicateLeads lower leads = dedupFilter lower {} leads"

text \<open>
  The normalization in the words of the specification, for comparison with \<open>leadKey\<close>:
  lower-case, then strip punctuation and whitespace, so that only letters and digits
  are left (of the ASCII characters, which is all that the comparison below needs); the
  identity key is the pair of the normalized name and address.
\<close>

definition spec_normalize :: "(string \<Rightarrow> string) \<Rightarrow> string \<Rightarrow> string" where
  "spec_normalize lower s =
     filter (\<lambda>c. c \<in> set ''abcdefghijklmnopqrstuvwxyz0123456789'') (lower s)"

definition spec_identity_key :: "(string \<Rightarrow> string) \<Rightarrow> candidate \<Rightarrow> string \<times> string" where
  "spec_identity_key lower lead =
     (spec_normalize lower (name lead), spec_normalize lower (address lead))"

text \<open>Three candidates in ASCII: two sources' spellings of one business, and one in capitals.\<close>

definition abcPlumbing :: candidate where
  "abcPlumbing = \<lparr> name = ''ABC Plumbing'', rating = Some 4.5, reviewCount = Some 12,
     address = ''1 Main St'', phone = ''555-0100'', website = '''', source = ''Google Maps'' \<rparr>"

definition abcPlumbingYelp :: candidate where
  "abcPlumbingYelp = \<lparr> name = ''A.B.C. Plumbing'', rating = Some 4, reviewCount = Some 7,
     address = ''1 Main St.'', phone = '''', website = '''', source = ''Yelp'' \<rparr>"

definition abcPlumbingCapitals :: candidate where
  "abcPlumbingCapitals = \<lparr> name = ''ABC PLUMBING'', rating = Some 3, reviewCount = Some 2,
     address = ''1 MAIN ST'', phone = '''', website = ''http://abc.example'',
     source = ''Yellow Pages'' \<rparr>"

section \<open>Dynamically typed fields\<close>

text \<open>
  The fields on which the code calls a string method can hold any JavaScript value; a
  method call on a value that has no such method raises a \<open>TypeError\<close>.
\<close>

datatype jsval = JUndefined | JNull | JBool bool | JNum real | JStr string

datatype js_error = TypeError | RangeError

fun truthy :: "jsval \<Rightarrow> bool" where
  "truthy JUndefined = False"
| "truthy JNull = False"
| "truthy (JBool b) = b"
| "truthy (JNum n) = (n \<noteq> 0)"
| "truthy (JStr s) = (s \<noteq> [])"

text \<open>\<open>a || b\<close> on values.\<close>

definition js_or :: "jsval \<Rightarrow> jsval \<Rightarrow> jsval" where
  "js_or a b = (if truthy a then a else b)"

text \<open>
  A numeric field is \<open>None\<close> when it is missing or NaN; \<open>null\<close> is \<open>Some 0\<close>, the number
  every comparison and every \<open>||\<close> of the code coerces it to. \<open>x || d\<close> on numbers:
\<close>

definition num_or :: "real option \<Rightarrow> real \<Rightarrow> real" where
  "num_or x d = (case x of None \<Rightarrow> d | Some v \<Rightarrow> if v = 0 then d else v)"

text \<open>\<open>x > c\<close> and \<open>x < c\<close> are false when \<open>x\<close> is missing or NaN.\<close>

definition num_gt :: "real option \<Rightarrow> real \<Rightarrow> bool" where
  "num_gt x c = (case x of None \<Rightarrow> False | Some v \<Rightarrow> v > c)"

definition num_lt :: "real option \<Rightarrow> real \<Rightarrow> bool" where
  "num_lt x c = (case x of None \<Rightarrow> False | Some v \<Rightarrow> v < c)"

text \<open>\<open>value.toLowerCase()\<close> on a value that the caller has not checked to be a string.\<close>

fun js_toLowerCase :: "jsval \<Rightarrow> js_error + string" where
  "js_toLowerCase (JStr s) = Inr (toLowerCase s)"
| "js_toLowerCase v = Inl TypeError"

section \<open>Scoring engine (lead-scorer.js)\<close>

datatype component =
  WebsiteQuality | SeoRanking | AdPresence | ReviewScore | SocialPresence
  | CompanySize | MarketCompetitiveness

datatype priority_level = High | Medium | Low

record recommendation =
  priority :: priority_level
  category :: string
  recommendation :: string
  services :: "string list"

record score_data =
  totalScore :: int
  tier :: string
  componentScores :: "component \<Rightarrow> int"
  recommendations :: "recommendation list"
  calculatedAt :: int

text \<open>The enrichment blocks (JSON objects); a flag is its truthiness.\<close>

record website_quality =
  hasWebsite :: bool
  hasMobileViewport :: bool
  hasSSL :: bool
  loadTime :: "real option"
  hasMetaDescription :: bool
  titleLength :: "real option"
  hasGoogleAnalytics :: bool
  hasLiveChat :: bool
  hasFacebookPixel :: bool

record seo_data =
  indexed :: bool
  estimatedRanking :: "real option"
  organicKeywords :: "real option"
  industryKeywords :: "string list option"

record ad_presence =
  hasGoogleAds :: bool
  estimatedAdSpend :: "string option"
  hasFacebookAds :: bool
  hasYelpAds :: bool

record platform_data =
  hasProfile :: bool
  engagement :: "string option"
  followersCount :: "real option"

record social_presence =
  facebook :: "platform_data option"
  instagram :: "platform_data option"
  linkedin :: "platform_data option"
  twitter :: "platform_data option"
  youtube :: "platform_data option"

datatype lead_status = New | Contacted | Qualified | Converted | Lost

text \<open>
  A lead object: a row of the \<open>leads\<close> table, or a scraped lead that the orchestrator
  hands to the scorer (hence the snake-case and camel-case spellings, which the scorer
  reads one after the other). Timestamps are milliseconds since the epoch.
\<close>

record lead =
  company_name :: string
  website :: "string option"
  website_quality :: "website_quality option"
  websiteQuality :: "website_quality option"
  seo_data :: "seo_data option"
  seoData :: "seo_data option"
  ad_presence :: "ad_presence option"
  adPresence :: "ad_presence option"
  rating :: "real option"
  review_count :: "real option"
  reviewCount :: "real option"
  review_response_rate :: "real option"
  social_presence :: "social_presence option"
  socialPresence :: "social_presence option"
  estimated_size :: jsval
  estimatedSize :: jsval
  employee_count :: "real option"
  address :: jsval
  location :: jsval
  local_competitor_count :: "real option"
  industry :: jsval
  status :: lead_status
  lead_score :: "int option"
  tier :: "string option"
  component_scores :: "(component \<Rightarrow> int) option"
  recommendations :: "recommendation list option"
  scored_at :: "int option"
  updated_at :: int

text \<open>\<open>a || b || {}\<close> on two optional objects with the empty object as the default.\<close>

definition obj_or :: "'a option \<Rightarrow> 'a option \<Rightarrow> 'a \<Rightarrow> 'a" where
  "obj_or a b d = (case a of Some x \<Rightarrow> x | None \<Rightarrow> (case b of Some y \<Rightarrow> y | None \<Rightarrow> d))"

definition emptyWebsiteQuality :: website_quality where
  "emptyWebsiteQuality = \<lparr> hasWebsite = False, hasMobileViewport = False, hasSSL = False,
     loadTime = None, hasMetaDescription = False, titleLength = None,
     hasGoogleAnalytics = False, hasLiveChat = False, hasFacebookPixel = False \<rparr>"

definition emptySeoData :: seo_data where
  "emptySeoData = \<lparr> indexed = False, estimatedRanking = None, organicKeywords = None,
     industryKeywords = None \<rparr>"

definition emptyAdPresence :: ad_presence where
  "emptyAdPresence = \<lparr> hasGoogleAds = False, estimatedAdSpend = None,
     hasFacebookAds = False, hasYelpAds = False \<rparr>"

definition emptySocialPresence :: social_presence where
  "emptySocialPresence = \<lparr> facebook = None, instagram = None, linkedin = None,
     twitter = None, youtube = None \<rparr>"

text \<open>\<open>this.weights\<close>.\<close>

fun weights :: "component \<Rightarrow> int" where
  "weights WebsiteQuality = 25"
| "weights SeoRanking = 20"
| "weights AdPresence = 15"
| "weights ReviewScore = 15"
| "weights SocialPresence = 10"
| "weights CompanySize = 10"
| "weights MarketCompetitiveness = 5"

text \<open>\<open>this.industryKeywords[industry] || []\<close>, the key being a string or \<open>undefined\<close>.\<close>

definition scorerIndustryKeywords :: "string option \<Rightarrow> string list" where
  "scorerIndustryKeywords key =
     (if key = Some ''HVAC'' then
        [''hvac repair'', ''air conditioning'', ''heating service'', ''ac repair'']
      else if key = Some ''PLUMBING'' then
        [''plumber'', ''plumbing service'', ''emergency plumber'', ''drain cleaning'']
      else if key = Some ''ROOFING'' then
        [''roofing contractor'', ''roof repair'', ''roof replacement'']
      else if key = Some ''ELECTRICAL'' then
        [''electrician'', ''electrical service'', ''electrical repair'']
      else [])"

text \<open>
  \<open>scoreWebsiteQuality\<close>. The indicator list holds the check and the points of each
  entry (the issue text only goes to the log).
\<close>

definition scoreWebsiteQuality :: "lead \<Rightarrow> int" where
  "scoreWebsiteQuality lead =
     (let wq = obj_or (website_quality lead) (websiteQuality lead) emptyWebsiteQuality in
      if \<not> hasWebsite wq \<and> (website lead = None \<or> website lead = Some [])
      then 100
      else
        let qualityIndicators =
              [(\<not> hasMobileViewport wq, 20), (\<not> hasSSL wq, 15),
               (num_gt (loadTime wq) 3000, 15), (\<not> hasMetaDescription wq, 10),
               (num_lt (titleLength wq) 30, 10), (\<not> hasGoogleAnalytics wq, 10),
               (\<not> hasLiveChat wq, 10), (\<not> hasFacebookPixel wq, 10)];
            score = fold (\<lambda>indicator score. if fst indicator then score + snd indicator else score)
                      qualityIndicators (0::int)
        in min score 100)"

text \<open>\<open>lead.industry?.toUpperCase()\<close>: only \<open>undefined\<close> and \<open>null\<close> short-circuit.\<close>

fun industryUpper :: "jsval \<Rightarrow> js_error + string option" where
  "industryUpper JUndefined = Inr None"
| "industryUpper JNull = Inr None"
| "industryUpper (JStr s) = Inr (Some (toUpperCase s))"
| "industryUpper v = Inl TypeError"

definition analyzeIndustryKeywords :: "lead \<Rightarrow> seo_data \<Rightarrow> js_error + int" where
  "analyzeIndustryKeywords lead sd =
     (case industryUpper (industry lead) of
        Inl e \<Rightarrow> Inl e
      | Inr ind \<Rightarrow>
          let keywords = scorerIndustryKeywords ind in
          if length keywords > 0
             \<and> (industryKeywords sd = None \<or> industryKeywords sd = Some [])
          then Inr 30 else Inr 15)"

definition scoreSEORanking :: "lead \<Rightarrow> js_error + int" where
  "scoreSEORanking lead =
     (let sd = obj_or (seo_data lead) (seoData lead) emptySeoData in
      if \<not> indexed sd then Inr 100
      else
        let ranking = num_or (estimatedRanking sd) 50;
            organic = num_or (organicKeywords sd) 0;
            score1 = (if ranking > 50 then 40 else if ranking > 20 then 25 else 10);
            score2 = score1 + (if organic < 50 then 30 else if organic < 200 then 20 else 10)
        in case analyzeIndustryKeywords lead sd of
             Inl e \<Rightarrow> Inl e
           | Inr industryKeywordScore \<Rightarrow> Inr (min (score2 + industryKeywordScore) 100))"

definition scoreAdPresence :: "lead \<Rightarrow> int" where
  "scoreAdPresence lead =
     (let ap = obj_or (ad_presence lead) (adPresence lead) emptyAdPresence;
          score0 = (if \<not> hasGoogleAds ap \<or> estimatedAdSpend ap = Some ''None'' then 80
                    else if estimatedAdSpend ap = Some ''Low''
                            \<or> estimatedAdSpend ap = Some ''Active'' then 40
                    else 20);
          score1 = (if \<not> hasFacebookAds ap then score0 + 10 else score0);
          score2 = (if \<not> hasYelpAds ap then score1 + 10 else score1)
      in min score2 100)"

definition scoreReviews :: "lead \<Rightarrow> int" where
  "scoreReviews lead =
     (let rating = num_or (rating lead) 0;
          reviewCount = num_or (review_count lead) (num_or (reviewCount lead) 0);
          score1 = (if reviewCount < 10 then 40 else if reviewCount < 50 then 25
                    else if reviewCount < 100 then 15 else 5);
          score2 = score1 + (if rating < 3 then 40 else if rating < 4 then 30
                    else if rating < 4.5 then 20 else 10);
          responseRate = num_or (review_response_rate lead) 0;
          score3 = (if responseRate < 30 then score2 + 20
                    else if responseRate < 60 then score2 + 10 else score2)
      in min score3 100)"

text \<open>\<open>scoreSocialPresence\<close>: \<open>socialPresence[platform]\<close> for the five platform names.\<close>

definition platforms :: "string list" where
  "platforms = [''facebook'', ''instagram'', ''linkedin'', ''twitter'', ''youtube'']"

definition platformLookup :: "social_presence \<Rightarrow> string \<Rightarrow> platform_data option" where
  "platformLookup sp platform =
     (if platform = ''facebook'' then facebook sp
      else if platform = ''instagram'' then instagram sp
      else if platform = ''linkedin'' then linkedin sp
      else if platform = ''twitter'' then twitter sp
      else if platform = ''youtube'' then youtube sp
      else None)"

text \<open>
  The body of \<open>platforms.forEach\<close>, on the three counters
  \<open>(score, missingPlatforms, lowEngagementPlatforms)\<close>.
\<close>

fun socialStep :: "social_presence \<Rightarrow> string \<Rightarrow> int \<times> nat \<times> nat \<Rightarrow> int \<times> nat \<times> nat" where
  "socialStep sp platform (score, missingPlatforms, lowEngagementPlatforms) =
     (case platformLookup sp platform of
        None \<Rightarrow> (score + 15, missingPlatforms + 1, lowEngagementPlatforms)
      | Some platformData \<Rightarrow>
          if \<not> hasProfile platformData
          then (score + 15, missingPlatforms + 1, lowEngagementPlatforms)
          else if engagement platformData = Some ''low''
                  \<or> num_lt (followersCount platformData) 100
          then (score + 10, missingPlatforms, lowEngagementPlatforms + 1)
          else (score + 5, missingPlatforms, lowEngagementPlatforms))"

definition scoreSocialPresence :: "lead \<Rightarrow> int" where
  "scoreSocialPresence lead =
     (let sp = obj_or (social_presence lead) (socialPresence lead) emptySocialPresence;
          counters = fold (socialStep sp) platforms (0, 0, 0);
          score = (if fst (snd counters) = length platforms then 100 else fst counters)
      in min score 100)"

definition scoreCompanySize :: "lead \<Rightarrow> js_error + int" where
  "scoreCompanySize lead =
     (let size = js_or (js_or (estimated_size lead) (estimatedSize lead)) (JStr ''Unknown'') in
      case js_toLowerCase size of
        Inl e \<Rightarrow> Inl e
      | Inr s \<Rightarrow>
          let score0 = (if s = ''large'' then 90 else if s = ''medium'' then 75
                        else if s = ''small'' then 50 else if s = ''startup'' then 30
                        else (40::int));
              employees = num_or (employee_count lead) 0;
              score1 = (if employees > 50 then min (score0 + 10) 100 else score0);
              score2 = (if employees > 100 then min (score1 + 10) 100 else score1)
          in Inr score2)"

definition majorCities :: "string list" where
  "majorCities = [''new york'', ''los angeles'', ''chicago'', ''houston'', ''phoenix'',
     ''philadelphia'', ''san antonio'', ''san diego'', ''dallas'', ''miami'']"

definition scoreMarketCompetitiveness :: "lead \<Rightarrow> js_error + int" where
  "scoreMarketCompetitiveness lead =
     (let location = js_or (js_or (address lead) (location lead)) (JStr '''') in
      case js_toLowerCase location of
        Inl e \<Rightarrow> Inl e
      | Inr l \<Rightarrow>
          let isMetroArea = list_ex (\<lambda>city. str_includes l city) majorCities;
              score0 = (if isMetroArea then 80 else (60::int));
              competitorCount = num_or (local_competitor_count lead) 0;
              score1 = (if competitorCount > 50 then min (score0 + 15) 100
                        else if competitorCount > 20 then min (score0 + 10) 100
                        else score0)
          in Inr score1)"

definition determineLeadTier :: "int \<Rightarrow> string" where
  "determineLeadTier score =
     (if score \<ge> 80 then ''Hot Lead''
      else if score \<ge> 60 then ''Warm Lead''
      else if score \<ge> 40 then ''Cold Lead''
      else ''Low Priority'')"

fun priorityOrder :: "priority_level \<Rightarrow> int" where
  "priorityOrder High = 1"
| "priorityOrder Medium = 2"
| "priorityOrder Low = 3"

definition generateRecommendations :: "(component \<Rightarrow> int) \<Rightarrow> lead \<Rightarrow> recommendation list" where
  "generateRecommendations scores lead =
     (let recs =
        (if scores WebsiteQuality \<ge> 70 then
           [\<lparr> priority = High, category = ''Website'',
              recommendation = ''Website redesign and optimization needed'',
              services = [''Website Development'', ''Mobile Optimization'',
                          ''Speed Optimization''] \<rparr>] else [])
        @ (if scores SeoRanking \<ge> 60 then
           [\<lparr> priority = High, category = ''SEO'',
              recommendation = ''SEO optimization required to improve rankings'',
              services = [''Local SEO'', ''On-Page SEO'', ''Content Marketing'',
                          ''Link Building''] \<rparr>] else [])
        @ (if scores AdPresence \<ge> 60 then
           [\<lparr> priority = High, category = ''Paid Advertising'',
              recommendation = ''PPC campaigns needed to increase visibility'',
              services = [''Google Ads'', ''Local Service Ads'', ''Facebook Ads''] \<rparr>] else [])
        @ (if scores ReviewScore \<ge> 60 then
           [\<lparr> priority = Medium, category = ''Reputation Management'',
              recommendation = ''Review generation and management needed'',
              services = [''Review Management'', ''Reputation Monitoring'',
                          ''Review Response''] \<rparr>] else [])
        @ (if scores SocialPresence \<ge> 60 then
           [\<lparr> priority = Medium, category = ''Social Media'',
              recommendation = ''Social media presence needs development'',
              services = [''Social Media Marketing'', ''Content Creation'',
                          ''Community Management''] \<rparr>] else [])
      in sort_key (\<lambda>r. priorityOrder (priority r)) recs)"

text \<open>
  \<open>calculateScore\<close>. \<open>Object.keys(scores)\<close> lists the keys in the order of the object
  literal. The weighted total is computed in double arithmetic: \<open>fl\<close> is the rounding
  that every division, multiplication and addition applies to its exact result (the
  identity gives exact arithmetic). \<open>Math.round\<close> rounds half up. \<open>now\<close> is the clock
  that \<open>new Date()\<close> reads.
\<close>

definition score_keys :: "component list" where
  "score_keys = [WebsiteQuality, SeoRanking, AdPresence, ReviewScore, SocialPresence,
     CompanySize, MarketCompetitiveness]"

definition math_round :: "real \<Rightarrow> int" where
  "math_round x = \<lfloor>x + 1 / 2\<rfloor>"

definition weightedTotal :: "(real \<Rightarrow> real) \<Rightarrow> (component \<Rightarrow> int) \<Rightarrow> real" where
  "weightedTotal fl scores =
     fold (\<lambda>key total.
             let weightedScore = fl (fl (real_of_int (scores key) / 100) * real_of_int (weights key))
             in fl (total + weightedScore))
          score_keys 0"

definition calculateScore :: "(real \<Rightarrow> real) \<Rightarrow> int \<Rightarrow> lead \<Rightarrow> js_error + score_data" where
  "calculateScore fl now lead =
     (let websiteQualityScore = scoreWebsiteQuality lead in
      case scoreSEORanking lead of
        Inl e \<Rightarrow> Inl e
      | Inr seoRankingScore \<Rightarrow>
     (let adPresenceScore = scoreAdPresence lead;
          reviewScore = scoreReviews lead;
          socialPresenceScore = scoreSocialPresence lead in
      case scoreCompanySize lead of
        Inl e \<Rightarrow> Inl e
      | Inr companySizeScore \<Rightarrow>
     (case scoreMarketCompetitiveness lead of
        Inl e \<Rightarrow> Inl e
      | Inr marketCompetitivenessScore \<Rightarrow>
          let scores = (\<lambda>key. case key of
                          WebsiteQuality \<Rightarrow> websiteQualityScore
                        | SeoRanking \<Rightarrow> seoRankingScore
                        | AdPresence \<Rightarrow> adPresenceScore
                        | ReviewScore \<Rightarrow> reviewScore
                        | SocialPresence \<Rightarrow> socialPresenceScore
                        | CompanySize \<Rightarrow> companySizeScore
                        | MarketCompetitiveness \<Rightarrow> marketCompetitivenessScore);
              finalScore = math_round (weightedTotal fl scores)
          in Inr \<lparr> totalScore = finalScore,
                   score_data.tier = determineLeadTier finalScore,
                   componentScores = scores,
                   score_data.recommendations = generateRecommendations scores lead,
                   calculatedAt = now \<rparr>)))"

text \<open>
  \<open>scoreLeads\<close>: an entry of the result is the lead (\<open>...lead\<close>) with the score fields
  set; \<open>score\<close> is not a field of a lead, so it stands beside it. A lead whose scoring
  raises gets score 0 and tier \<open>'Error'\<close>. The final \<open>sort\<close> is stable.
\<close>

record scored_lead =
  base :: lead
  score :: int

definition scoreEntry :: "(real \<Rightarrow> real) \<Rightarrow> int \<Rightarrow> lead \<Rightarrow> scored_lead" where
  "scoreEntry fl now lead =
     (case calculateScore fl now lead of
        Inr scoreData \<Rightarrow>
          \<lparr> base = lead\<lparr> tier := Some (score_data.tier scoreData),
                         component_scores := Some (componentScores scoreData),
                         recommendations := Some (score_data.recommendations scoreData),
                         scored_at := Some (calculatedAt scoreData) \<rparr>,
            score = totalScore scoreData \<rparr>
      | Inl error \<Rightarrow> \<lparr> base = lead\<lparr> tier := Some ''Error'' \<rparr>, score = 0 \<rparr>)"

definition scoreLeads :: "(real \<Rightarrow> real) \<Rightarrow> int \<Rightarrow> lead list \<Rightarrow> scored_lead list" where
  "scoreLeads fl now leads = sort_key (\<lambda>entry. - score entry) (map (scoreEntry fl now) leads)"

text \<open>
  The rounding of double arithmetic is monotone and leaves the integers from 0 to 100
  (all of them doubles) as they are.
\<close>

definition double_rounding :: "(real \<Rightarrow> real) \<Rightarrow> bool" where
  "double_rounding fl \<longleftrightarrow>
     mono fl \<and> (\<forall>n::int. 0 \<le> n \<and> n \<le> 100 \<longrightarrow> fl (real_of_int n) = real_of_int n)"

text \<open>
  A text column of the \<open>leads\<close> table gives a string or \<open>null\<close>; a scraped lead has a
  string or no such field.
\<close>

definition is_text :: "jsval \<Rightarrow> bool" where
  "is_text v = (case v of JUndefined \<Rightarrow> True | JNull \<Rightarrow> True | JStr s \<Rightarrow> True | _ \<Rightarrow> False)"

definition text_fields :: "lead \<Rightarrow> bool" where
  "text_fields l \<longleftrightarrow>
     is_text (estimated_size l) \<and> is_text (estimatedSize l) \<and> is_text (address l)
     \<and> is_text (location l) \<and> is_text (industry l)"

text \<open>A lead object with no field set, and one whose size is a number.\<close>

definition emptyLead :: lead where
  "emptyLead = \<lparr> company_name = '''', website = None, website_quality = None,
     websiteQuality = None, seo_data = None, seoData = None, ad_presence = None,
     adPresence = None, rating = None, review_count = None, reviewCount = None,
     review_response_rate = None, social_presence = None, socialPresence = None,
     estimated_size = JUndefined, estimatedSize = JUndefined, employee_count = None,
     address = JUndefined, location = JUndefined, local_competitor_count = None,
     industry = JUndefined, status = New, lead_score = None, tier = None,
     component_scores = None, recommendations = None, scored_at = None, updated_at = 0 \<rparr>"

definition numericSizeLead :: lead where
  "numericSizeLead = emptyLead\<lparr> company_name := ''Acme Roofing'', estimated_size := JNum 12 \<rparr>"


section \<open>Store, queues and environment\<close>

text \<open>
  The persistence collaborator (the database client) and the job queues (the queue
  library) are not code of the repository; they are modelled as tables and a job list in
  memory, on which every request succeeds. Row identifiers are natural numbers. The
  \<open>leads\<close> table is keyed by its primary key.
\<close>

record message =
  id_col :: nat
  lead_id :: nat
  message_id :: "string option"
  status :: string
  error_message :: "string option"
  delivered_at :: "int option"
  opened_at :: "int option"
  clicked_at :: "int option"

record lead_note =
  lead_id :: nat
  user_id :: "string option"
  note_col :: string
  created_at :: int

record scraping_job =
  id_col :: nat
  industries :: "string list"
  locations :: "string list"
  status :: string
  created_at :: int

datatype queue_name = ScrapingQ | ScoringQ | EmailQ | CampaignQ | FollowupQ | EnrichmentQ

text \<open>
  The payload objects that the modelled callers pass to \<open>addJob\<close>, one constructor per
  shape, with the fields in the order of the object literal:
  \<open>{leadId, enrichmentType}\<close>; \<open>{leadId, templateType, industry, priority, autoTriggered}\<close>;
  \<open>{leadId, industry, sequence}\<close>;
  \<open>{jobId, industries, locations, maxLeadsPerIndustry}\<close>.
\<close>

datatype job_data =
  EnrichData nat string
  | IntroEmailData nat string jsval string bool
  | FollowupData nat jsval string
  | ScrapingData "nat option" "string list" "string list" nat

text \<open>\<open>job.data.leadId\<close>.\<close>

fun data_leadId :: "job_data \<Rightarrow> nat option" where
  "data_leadId (EnrichData leadId t) = Some leadId"
| "data_leadId (IntroEmailData leadId t i p a) = Some leadId"
| "data_leadId (FollowupData leadId i s) = Some leadId"
| "data_leadId (ScrapingData jobId is ls n) = None"

record job_options =
  priority :: "int option"
  delay :: "int option"

record job =
  queue :: queue_name
  jobType :: string
  data :: job_data
  priority :: int
  delay :: int

record world =
  leads :: "nat \<Rightarrow> lead option"
  messages :: "message list"
  lead_notes :: "lead_note list"
  scraping_jobs :: "scraping_job list"
  jobs :: "job list"

record env =
  AUTO_EMAIL_THRESHOLD :: "string option"
  TARGET_INDUSTRIES :: "string option"
  TARGET_LOCATIONS :: "string option"

text \<open>
  \<open>addJob\<close> (queue-config.js): the queue name is one of the six configured queues, and
  an option that the caller gives overrides the default.
\<close>

definition addJob :: "world \<Rightarrow> queue_name \<Rightarrow> string \<Rightarrow> job_data \<Rightarrow> job_options \<Rightarrow> world" where
  "addJob w queueName jtype payload options =
     w\<lparr> jobs := jobs w @
          [\<lparr> queue = queueName, jobType = jtype, data = payload,
             job.priority = (case job_options.priority options of Some p \<Rightarrow> p | None \<Rightarrow> 5),
             job.delay = (case job_options.delay options of Some d \<Rightarrow> d | None \<Rightarrow> 0) \<rparr>] \<rparr>"

text \<open>
  \<open>queue.getDelayed()\<close>: the jobs of a queue that wait for their delay. The passing of
  time is not modelled, so a job added with a delay stays delayed until it is removed.
\<close>

definition getDelayed :: "world \<Rightarrow> queue_name \<Rightarrow> job list" where
  "getDelayed w queueName = filter (\<lambda>j. queue j = queueName \<and> job.delay j > 0) (jobs w)"

text \<open>\<open>.single()\<close>: the row when the query matches exactly one, otherwise \<open>null\<close>.\<close>

fun single :: "'a list \<Rightarrow> 'a option" where
  "single [x] = Some x"
| "single xs = None"

text \<open>
  \<open>new Date(ms).toISOString()\<close> raises a \<open>RangeError\<close> outside the range of time values;
  inside it the stored timestamp is the number of milliseconds.
\<close>

definition validDate :: "int \<Rightarrow> bool" where
  "validDate ms \<longleftrightarrow> - 8640000000000000 \<le> ms \<and> ms \<le> 8640000000000000"

text \<open>\<open>parseInt(s)\<close>: leading white space, a sign, then hexadecimal digits after \<open>0x\<close> or
  decimal digits; \<open>None\<close> is NaN.\<close>

definition digitOf :: "char \<Rightarrow> nat option" where
  "digitOf = map_of (zip ''0123456789'' [0, 1, 2, 3, 4, 5, 6, 7, 8, 9])"

definition hexDigitOf :: "char \<Rightarrow> nat option" where
  "hexDigitOf = map_of (zip ''0123456789abcdefABCDEF''
     [0, 1, 2, 3, 4, 5, 6, 7, 8, 9, 10, 11, 12, 13, 14, 15, 10, 11, 12, 13, 14, 15])"

fun parseDigits :: "(char \<Rightarrow> nat option) \<Rightarrow> nat \<Rightarrow> string \<Rightarrow> nat option \<Rightarrow> nat option" where
  "parseDigits dig radix [] acc = acc"
| "parseDigits dig radix (c # cs) acc =
     (case dig c of
        None \<Rightarrow> acc
      | Some d \<Rightarrow>
          parseDigits dig radix cs (Some (radix * (case acc of None \<Rightarrow> 0 | Some a \<Rightarrow> a) + d)))"

definition parseInt :: "string \<Rightarrow> int option" where
  "parseInt s =
     (let t = dropWhile (\<lambda>c. c \<in> set [CHR '' '', CHR 0x09, CHR 0x0A, CHR 0x0B, CHR 0x0C, CHR 0x0D]) s;
          negative = (case t of c # r \<Rightarrow> c = CHR ''-'' | [] \<Rightarrow> False);
          u = (case t of c # r \<Rightarrow> if c = CHR ''-'' \<or> c = CHR ''+'' then r else t | [] \<Rightarrow> t);
          magnitude =
            (if prefix ''0x'' u \<or> prefix ''0X'' u then parseDigits hexDigitOf 16 (drop 2 u) None
             else parseDigits digitOf 10 u None)
      in map_option (\<lambda>n. if negative then - int n else int n) magnitude)"

text \<open>\<open>s.split(',')\<close>.\<close>

fun split_char :: "char \<Rightarrow> string \<Rightarrow> string list" where
  "split_char sep [] = [[]]"
| "split_char sep (c # cs) =
     (if c = sep then [] # split_char sep cs
      else (case split_char sep cs of x # xs \<Rightarrow> (c # x) # xs | [] \<Rightarrow> [[c]]))"

section \<open>Email webhooks (email-webhooks.js)\<close>

text \<open>
  Every helper catches and logs what it raises, so each is a total function on the
  world. \<open>now\<close> is the clock of the call.
\<close>

definition recordLeadActivity :: "world \<Rightarrow> int \<Rightarrow> nat \<Rightarrow> string \<Rightarrow> string option \<Rightarrow> world" where
  "recordLeadActivity w now leadId noteText userId =
     w\<lparr> lead_notes := lead_notes w @
          [\<lparr> lead_note.lead_id = leadId, user_id = userId, note_col = noteText,
             lead_note.created_at = now \<rparr>] \<rparr>"

text \<open>\<open>update(...).eq('id', leadId)\<close> on the \<open>leads\<close> table.\<close>

definition updateLead :: "world \<Rightarrow> nat \<Rightarrow> (lead \<Rightarrow> lead) \<Rightarrow> world" where
  "updateLead w leadId f =
     (case leads w leadId of
        None \<Rightarrow> w
      | Some row \<Rightarrow> w\<lparr> leads := (leads w)(leadId \<mapsto> f row) \<rparr>)"

definition updateLeadStatus :: "world \<Rightarrow> int \<Rightarrow> nat \<Rightarrow> lead_status \<Rightarrow> string option \<Rightarrow> world" where
  "updateLeadStatus w now leadId newStatus notes =
     (let w1 = updateLead w leadId (\<lambda>row. row\<lparr> lead.status := newStatus, updated_at := now \<rparr>) in
      case notes of
        None \<Rightarrow> w1
      | Some noteText \<Rightarrow>
          if noteText = [] then w1 else recordLeadActivity w1 now leadId noteText (Some ''system''))"

definition incrementEngagementScore :: "world \<Rightarrow> int \<Rightarrow> nat \<Rightarrow> int \<Rightarrow> world" where
  "incrementEngagementScore w now leadId points =
     (case leads w leadId of
        None \<Rightarrow> w
      | Some row \<Rightarrow>
          let newScore = min ((case lead_score row of None \<Rightarrow> 0 | Some s \<Rightarrow> s) + points) 100
          in updateLead w leadId (\<lambda>r. r\<lparr> lead_score := Some newScore, updated_at := now \<rparr>))"

definition cancelScheduledFollowUps :: "world \<Rightarrow> nat \<Rightarrow> world" where
  "cancelScheduledFollowUps w leadId =
     (let delayedJobs = getDelayed w FollowupQ in
      w\<lparr> jobs := filter (\<lambda>j. \<not> (j \<in> set delayedJobs \<and> data_leadId (data j) = Some leadId))
                   (jobs w) \<rparr>)"

definition handleEmailOpened :: "world \<Rightarrow> int \<Rightarrow> nat \<Rightarrow> message \<Rightarrow> world" where
  "handleEmailOpened w now leadId msg =
     (let w1 = incrementEngagementScore w now leadId 5;
          w2 = recordLeadActivity w1 now leadId ''Email opened'' (Some ''system'');
          opens = filter (\<lambda>m. message.lead_id m = leadId \<and> opened_at m \<noteq> None) (messages w2)
      in if length opens = 1
         then
           let w3 = updateLeadStatus w2 now leadId Qualified (Some ''Opened first email'')
           in addJob w3 EnrichmentQ ''enrich-engaged-lead'' (EnrichData leadId ''all'')
                \<lparr> job_options.priority = Some 7, job_options.delay = None \<rparr>
         else w2)"

definition handleEmailClicked :: "world \<Rightarrow> int \<Rightarrow> nat \<Rightarrow> message \<Rightarrow> string option \<Rightarrow> world" where
  "handleEmailClicked w now leadId msg link =
     (let w1 = incrementEngagementScore w now leadId 10;
          w2 = recordLeadActivity w1 now leadId
                 (''Clicked link: '' @ (case link of Some u \<Rightarrow> u | None \<Rightarrow> ''undefined''))
                 (Some ''system'');
          w3 = updateLeadStatus w2 now leadId Qualified (Some ''Clicked email link'')
      in cancelScheduledFollowUps w3 leadId)"

text \<open>\<open>updateData\<close>: the column assignments in the order they are made.\<close>

datatype message_column =
  SetStatus string | SetErrorMessage string | SetDeliveredAt int | SetOpenedAt int
  | SetClickedAt int

fun setColumn :: "message_column \<Rightarrow> message \<Rightarrow> message" where
  "setColumn (SetStatus s) m = m\<lparr> message.status := s \<rparr>"
| "setColumn (SetErrorMessage e) m = m\<lparr> error_message := Some e \<rparr>"
| "setColumn (SetDeliveredAt t) m = m\<lparr> delivered_at := Some t \<rparr>"
| "setColumn (SetOpenedAt t) m = m\<lparr> opened_at := Some t \<rparr>"
| "setColumn (SetClickedAt t) m = m\<lparr> clicked_at := Some t \<rparr>"

text \<open>The closing \<open>if (Object.keys(updateData).length > 0) update(updateData).eq('id', message.id)\<close>.\<close>

definition updateMessage :: "world \<Rightarrow> message \<Rightarrow> message_column list \<Rightarrow> world" where
  "updateMessage w msg updateData =
     (if length updateData > 0
      then w\<lparr> messages := map (\<lambda>m. if message.id_col m = message.id_col msg
                                    then fold setColumn updateData m else m) (messages w) \<rparr>
      else w)"

record sendgrid_event =
  event :: string
  email :: string
  sg_message_id :: string
  timestamp :: int
  url :: "string option"
  reason :: "string option"

text \<open>\<open>event.reason || 'Email bounced'\<close> and the like.\<close>

definition str_or :: "string option \<Rightarrow> string \<Rightarrow> string" where
  "str_or s d = (case s of None \<Rightarrow> d | Some t \<Rightarrow> if t = [] then d else t)"

text \<open>
  \<open>processSendGridEvent\<close>. A \<open>RangeError\<close> of the date conversion leaves the \<open>switch\<close>
  before the lead is touched and is caught by the enclosing \<open>try\<close>.
\<close>

definition processSendGridEvent :: "world \<Rightarrow> int \<Rightarrow> sendgrid_event \<Rightarrow> world" where
  "processSendGridEvent w now ev =
     (case single (filter (\<lambda>m. message_id m = Some (sg_message_id ev)) (messages w)) of
        None \<Rightarrow> w
      | Some msg \<Rightarrow>
          let leadId = message.lead_id msg; eventType = event ev; ms = timestamp ev * 1000 in
          if eventType = ''delivered'' then
            (if \<not> validDate ms then w
             else updateMessage (updateLeadStatus w now leadId Contacted None) msg
                    [SetStatus ''delivered'', SetDeliveredAt ms])
          else if eventType = ''open'' then
            (if \<not> validDate ms then w
             else updateMessage (handleEmailOpened w now leadId msg) msg [SetOpenedAt ms])
          else if eventType = ''click'' then
            (if \<not> validDate ms then w
             else updateMessage (handleEmailClicked w now leadId msg (url ev)) msg
                    [SetClickedAt ms])
          else if eventType = ''bounce'' \<or> eventType = ''dropped'' then
            updateMessage (updateLeadStatus w now leadId Lost (Some ''Email bounced'')) msg
              [SetStatus ''bounced'', SetErrorMessage (str_or (reason ev) ''Email bounced'')]
          else if eventType = ''spam_report'' then
            updateMessage (updateLeadStatus w now leadId Lost (Some ''Marked as spam'')) msg
              [SetStatus ''failed'', SetErrorMessage ''Marked as spam'']
          else updateMessage w msg [])"

record mailgun_event =
  event :: string
  recipient :: string
  message_id :: "string option"
  timestamp :: int
  url :: "string option"
  error :: "string option"

text \<open>
  \<open>handleMailgunWebhook\<close>, with the status code of the response. Here the
  \<open>RangeError\<close> is caught by the handler's own \<open>try\<close>, which answers 500.
\<close>

definition handleMailgunWebhook :: "world \<Rightarrow> int \<Rightarrow> mailgun_event \<Rightarrow> world \<times> nat" where
  "handleMailgunWebhook w now ev =
     (let messageId = map_option (filter (\<lambda>c. c \<noteq> CHR ''<'' \<and> c \<noteq> CHR ''>''))
                        (mailgun_event.message_id ev) in
      case (if messageId = None then None
            else single (filter (\<lambda>m. message.message_id m = messageId) (messages w))) of
        None \<Rightarrow> (w, 200)
      | Some msg \<Rightarrow>
          let leadId = message.lead_id msg; eventType = mailgun_event.event ev;
              ms = mailgun_event.timestamp ev * 1000 in
          if eventType = ''delivered'' then
            (if \<not> validDate ms then (w, 500)
             else (updateMessage (updateLeadStatus w now leadId Contacted None) msg
                     [SetStatus ''delivered'', SetDeliveredAt ms], 200))
          else if eventType = ''opened'' then
            (if \<not> validDate ms then (w, 500)
             else (updateMessage (handleEmailOpened w now leadId msg) msg [SetOpenedAt ms], 200))
          else if eventType = ''clicked'' then
            (if \<not> validDate ms then (w, 500)
             else (updateMessage (handleEmailClicked w now leadId msg (mailgun_event.url ev)) msg
                     [SetClickedAt ms], 200))
          else if eventType = ''bounced'' \<or> eventType = ''failed'' then
            (updateMessage (updateLeadStatus w now leadId Lost (Some ''Email bounced'')) msg
               [SetStatus ''bounced'',
                SetErrorMessage (str_or (mailgun_event.error ev) ''Email bounced'')], 200)
          else if eventType = ''complained'' then
            (updateMessage (updateLeadStatus w now leadId Lost (Some ''Spam complaint'')) msg
               [SetStatus ''failed'', SetErrorMessage ''Spam complaint''], 200)
          else (updateMessage w msg [], 200))"

section \<open>Scoring job processor (scoring-processor.js)\<close>

text \<open>
  The definitions of this section embed the bodies of the module's functions: what a call
  of each function does to the store and the queues, with \<open>process.env\<close> read from the
  environment. The module also declares a function of its own named \<open>process\<close>, which
  hides the global object of that name inside the module; this is not modelled.
\<close>

datatype proc_error = LeadNotFound | ScoringRaised js_error

text \<open>The \<open>followUpSchedule\<close> of \<open>scheduleFollowUpSequence\<close>: delay in days and job type.\<close>

definition followUpSchedule :: "(int \<times> string) list" where
  "followUpSchedule = [(3, ''followup-1''), (7, ''followup-2''), (14, ''case-study'')]"

definition scheduleFollowUpSequence :: "world \<Rightarrow> nat \<Rightarrow> lead \<Rightarrow> world" where
  "scheduleFollowUpSequence w leadId row =
     fold (\<lambda>followUp w'.
             addJob w' FollowupQ (snd followUp)
               (FollowupData leadId (industry row) (snd followUp))
               \<lparr> job_options.priority = Some 5,
                 job_options.delay = Some (fst followUp * 24 * 60 * 60 * 1000) \<rparr>)
          followUpSchedule w"

text \<open>
  \<open>triggerHotLeadCampaign\<close>. The threshold is \<open>parseInt\<close> of the environment variable
  or of \<open>'80'\<close>; a comparison with NaN is false.
\<close>

definition hotLeadThreshold :: "env \<Rightarrow> int option" where
  "hotLeadThreshold e = parseInt (str_or (AUTO_EMAIL_THRESHOLD e) ''80'')"

definition triggerHotLeadCampaign :: "env \<Rightarrow> world \<Rightarrow> nat \<Rightarrow> lead \<Rightarrow> score_data \<Rightarrow> world" where
  "triggerHotLeadCampaign e w leadId row scoreData =
     (if (case hotLeadThreshold e of None \<Rightarrow> False | Some t \<Rightarrow> totalScore scoreData < t)
      then w
      else
        let existingMessages = take 1 (filter (\<lambda>m. message.lead_id m = leadId) (messages w)) in
        if length existingMessages > 0 then w
        else
          let w1 = addJob w EmailQ ''send-intro-email''
                     (IntroEmailData leadId ''intro'' (industry row) ''high'' True)
                     \<lparr> job_options.priority = Some 10, job_options.delay = Some 300000 \<rparr>
          in scheduleFollowUpSequence w1 leadId row)"

text \<open>
  \<open>scoreSingleLead\<close>: it raises when the lead is not found or the scorer raises, before
  anything is written; otherwise it returns \<open>{leadId, score, tier}\<close>.
\<close>

definition scoreSingleLead ::
  "(real \<Rightarrow> real) \<Rightarrow> env \<Rightarrow> int \<Rightarrow> world \<Rightarrow> nat \<Rightarrow> proc_error + world \<times> (nat \<times> int \<times> string)" where
  "scoreSingleLead fl e now w leadId =
     (case leads w leadId of
        None \<Rightarrow> Inl LeadNotFound
      | Some row \<Rightarrow>
          (case calculateScore fl now row of
             Inl err \<Rightarrow> Inl (ScoringRaised err)
           | Inr scoreData \<Rightarrow>
               let w1 = updateLead w leadId
                          (\<lambda>r. r\<lparr> lead_score := Some (totalScore scoreData),
                                  lead.tier := Some (score_data.tier scoreData),
                                  component_scores := Some (componentScores scoreData),
                                  lead.recommendations :=
                                    Some (score_data.recommendations scoreData),
                                  scored_at := Some (calculatedAt scoreData),
                                  updated_at := now \<rparr>);
                   w2 = (if totalScore scoreData \<ge> 80
                         then triggerHotLeadCampaign e w1 leadId row scoreData else w1)
               in Inr (w2, (leadId, totalScore scoreData, score_data.tier scoreData))))"

section \<open>Cron scheduler (cron-scheduler.js)\<close>

text \<open>
  \<open>createScrapingJobRecord\<close>: the insert gives the new row the next free identifier.
\<close>

definition createScrapingJobRecord ::
  "world \<Rightarrow> int \<Rightarrow> string list \<Rightarrow> string list \<Rightarrow> string \<Rightarrow> world \<times> nat option" where
  "createScrapingJobRecord w now inds locs kind =
     (let newId = length (scraping_jobs w) in
      (w\<lparr> scraping_jobs := scraping_jobs w @
            [\<lparr> scraping_job.id_col = newId, industries = inds, locations = locs,
               scraping_job.status = ''pending'', scraping_job.created_at = now \<rparr>] \<rparr>,
       Some newId))"

text \<open>
  \<open>runDailyScraping\<close>, the callback that the daily trigger runs each time it fires. The
  only state the scheduler keeps about its triggers is the in-memory map \<open>activeJobs\<close>
  of timer handles, which the callback does not read.
\<close>

definition runDailyScraping :: "env \<Rightarrow> int \<Rightarrow> world \<Rightarrow> world" where
  "runDailyScraping e now w =
     (let inds = (case TARGET_INDUSTRIES e of
                    Some s \<Rightarrow> split_char CHR '','' s
                  | None \<Rightarrow> [''HVAC'', ''PLUMBING'', ''ROOFING'', ''ELECTRICAL'']);
          locs = (case TARGET_LOCATIONS e of
                    Some s \<Rightarrow> split_char CHR '','' s
                  | None \<Rightarrow> [''Phoenix, AZ'', ''Los Angeles, CA'', ''Houston, TX'']);
          created = createScrapingJobRecord w now inds locs ''daily''
      in addJob (fst created) ScrapingQ ''daily-scraping''
           (ScrapingData (snd created) inds locs 25)
           \<lparr> job_options.priority = Some 7, job_options.delay = None \<rparr>)"

text \<open>\<open>runWeeklyScraping\<close>, the callback of the weekly trigger.\<close>

definition runWeeklyScraping :: "int \<Rightarrow> world \<Rightarrow> world" where
  "runWeeklyScraping now w =
     (let inds = [''HVAC'', ''PLUMBING'', ''ROOFING'', ''ELECTRICAL''];
          locs = [''Phoenix, AZ'', ''Los Angeles, CA'', ''Houston, TX'', ''Miami, FL'',
                  ''Atlanta, GA'', ''Dallas, TX'', ''Chicago, IL'', ''New York, NY''];
          created = createScrapingJobRecord w now inds locs ''weekly''
      in addJob (fst created) ScrapingQ ''weekly-scraping''
           (ScrapingData (snd created) inds locs 100)
           \<lparr> job_options.priority = Some 5, job_options.delay = None \<rparr>)"

section \<open>Example states\<close>

definition defaultEnv :: env where
  "defaultEnv = \<lparr> AUTO_EMAIL_THRESHOLD = None, TARGET_INDUSTRIES = None,
     TARGET_LOCATIONS = None \<rparr>"

definition emptyWorld :: world where
  "emptyWorld = \<lparr> leads = Map.empty, messages = [], lead_notes = [], scraping_jobs = [],
     jobs = [] \<rparr>"

text \<open>The introduction email of lead 7, sent and not yet opened.\<close>

definition introMessage :: message where
  "introMessage = \<lparr> message.id_col = 1, message.lead_id = 7, message.message_id = Some ''sg-1'',
     message.status = ''sent'', error_message = None, delivered_at = None, opened_at = None,
     clicked_at = None \<rparr>"

text \<open>
  Lead 7 with the given status and score, its introduction email, and the three
  follow-up jobs of its sequence still delayed.
\<close>

definition contactedWorld :: "lead_status \<Rightarrow> int option \<Rightarrow> world" where
  "contactedWorld st sc =
     scheduleFollowUpSequence
       (emptyWorld\<lparr> leads := [7 \<mapsto> emptyLead\<lparr> company_name := ''ABC Plumbing'',
                                  lead.status := st, lead_score := sc \<rparr>],
                    messages := [introMessage] \<rparr>)
       7 emptyLead"

definition sendgridEvent :: "string \<Rightarrow> sendgrid_event" where
  "sendgridEvent kind = \<lparr> sendgrid_event.event = kind, email = ''owner@abc.example'',
     sg_message_id = ''sg-1'', sendgrid_event.timestamp = 1700000000,
     sendgrid_event.url = None, reason = None \<rparr>"

definition mailgunEvent :: "string \<Rightarrow> mailgun_event" where
  "mailgunEvent kind = \<lparr> mailgun_event.event = kind, recipient = ''owner@abc.example'',
     mailgun_event.message_id = Some ''<sg-1>'', mailgun_event.timestamp = 1700000000,
     mailgun_event.url = None, error = None \<rparr>"

text \<open>
  A lead with many good reviews and nothing else known: its weighted total is 79.25,
  which rounds to 79.
\<close>

definition reviewedLead :: lead where
  "reviewedLead = emptyLead\<lparr> company_name := ''Best Electric'', rating := Some 4.8,
     review_count := Some 150, review_response_rate := Some 80 \<rparr>"

section \<open>Observations on the store\<close>

text \<open>The status, the score, and both, of the lead with a given identifier.\<close>

definition statusOf :: "world \<Rightarrow> nat \<Rightarrow> lead_status option" where
  "statusOf w lid = map_option lead.status (leads w lid)"

definition scoreOf :: "world \<Rightarrow> nat \<Rightarrow> int option option" where
  "scoreOf w lid = map_option lead_score (leads w lid)"

definition leadState :: "world \<Rightarrow> nat \<Rightarrow> (lead_status \<times> int option) option" where
  "leadState w lid = map_option (\<lambda>r. (lead.status r, lead_score r)) (leads w lid)"

text \<open>The lead states after the status of one lead, if it exists, is set.\<close>

definition setStatusOf :: "lead_status \<Rightarrow> nat \<Rightarrow> (nat \<Rightarrow> (lead_status \<times> int option) option)
    \<Rightarrow> nat \<Rightarrow> (lead_status \<times> int option) option" where
  "setStatusOf st lid S = (\<lambda>k. if k = lid then map_option (\<lambda>p. (st, snd p)) (S k) else S k)"

definition dailyScrapingJobs :: "world \<Rightarrow> job list" where
  "dailyScrapingJobs w = filter (\<lambda>j. queue j = ScrapingQ \<and> jobType j = ''daily-scraping'') (jobs w)"

definition weeklyScrapingJobs :: "world \<Rightarrow> job list" where
  "weeklyScrapingJobs w = filter (\<lambda>j. queue j = ScrapingQ \<and> jobType j = ''weekly-scraping'') (jobs w)"

definition enrichmentJobs :: "world \<Rightarrow> job list" where
  "enrichmentJobs w = filter (\<lambda>j. queue j = EnrichmentQ) (jobs w)"

section \<open>Deduplication: proofs\<close>

lemma dedupFilter_filter_key:
  "filter (\<lambda>c. leadKey lower c = k) (dedupFilter lower seen cands) =
     (if k \<in> seen then []
      else case find (\<lambda>c. leadKey lower c = k) cands of None \<Rightarrow> [] | Some c \<Rightarrow> [c])"
proof (induction cands arbitrary: seen)
  case Nil
  show ?case by simp
next
  case (Cons cand cands)
  show ?case
  proof (cases "leadKey lower cand \<in> seen")
    case True
    then show ?thesis using Cons.IH [of seen] by (auto simp: Let_def)
  next
    case False
    then show ?thesis using Cons.IH [of "insert (leadKey lower cand) seen"]
      by (auto simp: Let_def)
  qed
qed

lemma dedupFilter_keys:
  "set (map (leadKey lower) (dedupFilter lower seen cands)) = leadKey lower ` set cands - seen"
  by (induction cands arbitrary: seen) (auto simp: Let_def)

lemma dedupFilter_distinct: "distinct (map (leadKey lower) (dedupFilter lower seen cands))"
proof (induction cands arbitrary: seen)
  case Nil
  show ?case by simp
next
  case (Cons cand cands)
  have "leadKey lower cand
          \<notin> set (map (leadKey lower) (dedupFilter lower (insert (leadKey lower cand) seen) cands))"
    unfolding dedupFilter_keys by simp
  with Cons.IH show ?case by (simp add: Let_def)
qed

lemma dedupFilter_subseq: "subseq (dedupFilter lower seen cands) cands"
  by (induction cands arbitrary: seen) (auto simp: Let_def)

lemma deduplicateLeads_pair:
  "deduplicateLeads lower [c, d] =
     (if lower (candidate.name c) @ ''-'' @ lower (candidate.address c) = lower (candidate.name d) @ ''-'' @ lower (candidate.address d)
      then [c] else [c, d])"
  by (simp add: deduplicateLeads_def leadKey_def Let_def)

text \<open>
  C1 (as amended). The identity key of the code is the lower-cased name, a hyphen and the
  lower-cased address, with punctuation and whitespace kept; the lower-casing is the
  built-in one, whatever it does to a string. For every input list the output holds
  exactly one candidate for each such key of the input, namely the first candidate of
  the input that has it; the keys of the output are pairwise different, and the output
  is the input with elements left out, so no candidate is changed or merged. Of two
  candidates, the second is dropped exactly when the two keys are equal; it is dropped
  in particular when the names have the same lower-casing and so have the addresses.
\<close>

theorem deduplicateLeads_first_seen_per_key:
  "filter (\<lambda>c. leadKey lower c = k) (deduplicateLeads lower cands) =
     (case find (\<lambda>c. leadKey lower c = k) cands of None \<Rightarrow> [] | Some c \<Rightarrow> [c])
   \<and> distinct (map (leadKey lower) (deduplicateLeads lower cands))
   \<and> set (map (leadKey lower) (deduplicateLeads lower cands)) = leadKey lower ` set cands
   \<and> subseq (deduplicateLeads lower cands) cands
   \<and> deduplicateLeads lower [c, d] =
       (if lower (candidate.name c) @ ''-'' @ lower (candidate.address c) = lower (candidate.name d) @ ''-'' @ lower (candidate.address d)
        then [c] else [c, d])
   \<and> (lower (candidate.name c) = lower (candidate.name d) \<and> lower (candidate.address c) = lower (candidate.address d) \<longrightarrow>
        deduplicateLeads lower [c, d] = [c])"
  unfolding deduplicateLeads_def
  using dedupFilter_filter_key [of lower k "{}" cands] dedupFilter_keys [of lower "{}" cands]
    dedupFilter_distinct [of lower "{}" cands] dedupFilter_subseq [of lower "{}" cands]
    deduplicateLeads_pair [of lower c d, unfolded deduplicateLeads_def]
  by simp

text \<open>
  C1 (as amended) on two candidates that differ in case only and on two that differ in
  punctuation: the first pair is merged into its first candidate, the second pair is
  kept whole.
\<close>

theorem deduplicateLeads_first_seen_per_key_witness:
  "toLowerCase (candidate.name abcPlumbing) = toLowerCase (candidate.name abcPlumbingCapitals)
   \<and> toLowerCase (candidate.address abcPlumbing) = toLowerCase (candidate.address abcPlumbingCapitals)
   \<and> deduplicateLeads toLowerCase [abcPlumbing, abcPlumbingCapitals] = [abcPlumbing]
   \<and> filter (\<lambda>c. leadKey toLowerCase c = ''abc plumbing-1 main st'')
        (deduplicateLeads toLowerCase [abcPlumbing, abcPlumbingYelp, abcPlumbingCapitals])
       = [abcPlumbing]"
proof -
  have eq: "toLowerCase (candidate.name abcPlumbing) = toLowerCase (candidate.name abcPlumbingCapitals)"
      "toLowerCase (candidate.address abcPlumbing) = toLowerCase (candidate.address abcPlumbingCapitals)"
    by (simp_all add: abcPlumbing_def abcPlumbingCapitals_def toLowerCase_def lowerChar_def)
  have "find (\<lambda>c. leadKey toLowerCase c = ''abc plumbing-1 main st'')
          [abcPlumbing, abcPlumbingYelp, abcPlumbingCapitals] = Some abcPlumbing"
    by (simp add: leadKey_def abcPlumbing_def toLowerCase_def lowerChar_def)
  then show ?thesis
    using eq
      deduplicateLeads_first_seen_per_key [of toLowerCase "''abc plumbing-1 main st''"
        "[abcPlumbing, abcPlumbingYelp, abcPlumbingCapitals]" abcPlumbing abcPlumbingCapitals]
    by simp
qed

text \<open>
  C1 as stated fails: two candidates whose names and addresses differ only in
  punctuation have the same normalized identity key in the words of the specification,
  and the deduplication keeps both. Both are strings of ASCII characters, on which the
  built-in lower-casing is \<open>toLowerCase\<close>.
\<close>

theorem deduplicateLeads_punctuation_counterexample:
  "spec_identity_key toLowerCase abcPlumbing = spec_identity_key toLowerCase abcPlumbingYelp
   \<and> deduplicateLeads toLowerCase [abcPlumbing, abcPlumbingYelp] = [abcPlumbing, abcPlumbingYelp]"
  by (simp add: spec_identity_key_def spec_normalize_def deduplicateLeads_def leadKey_def
      abcPlumbing_def abcPlumbingYelp_def toLowerCase_def lowerChar_def)

section \<open>Scoring engine: proofs\<close>

lemma fold_indicators_nonneg:
  "0 \<le> acc \<Longrightarrow> (\<And>i. i \<in> set xs \<Longrightarrow> 0 \<le> snd i) \<Longrightarrow>
   0 \<le> fold (\<lambda>indicator (s::int). if fst indicator then s + snd indicator else s) xs acc"
  by (induction xs arbitrary: acc) auto

lemma scoreWebsiteQuality_range: "0 \<le> scoreWebsiteQuality l \<and> scoreWebsiteQuality l \<le> 100"
proof -
  have "0 \<le> scoreWebsiteQuality l"
    unfolding scoreWebsiteQuality_def Let_def
    by (auto intro!: fold_indicators_nonneg)
  moreover have "scoreWebsiteQuality l \<le> 100"
    unfolding scoreWebsiteQuality_def Let_def by simp
  ultimately show ?thesis by simp
qed

lemma analyzeIndustryKeywords_range:
  "analyzeIndustryKeywords l sd = Inr v \<Longrightarrow> 0 \<le> v \<and> v \<le> 100"
  by (auto simp: analyzeIndustryKeywords_def Let_def split: sum.splits if_splits)

lemma scoreSEORanking_range: "scoreSEORanking l = Inr v \<Longrightarrow> 0 \<le> v \<and> v \<le> 100"
  unfolding scoreSEORanking_def Let_def
  by (auto split: sum.splits if_splits dest!: analyzeIndustryKeywords_range)

lemma scoreAdPresence_range: "0 \<le> scoreAdPresence l \<and> scoreAdPresence l \<le> 100"
  unfolding scoreAdPresence_def Let_def by auto

lemma scoreReviews_range: "0 \<le> scoreReviews l \<and> scoreReviews l \<le> 100"
  unfolding scoreReviews_def Let_def by auto

lemma socialStep_nonneg:
  "0 \<le> fst c \<Longrightarrow> 0 \<le> fst (socialStep sp p c)"
  by (cases c) (auto split: option.splits)

lemma fold_socialStep_nonneg:
  "0 \<le> fst c \<Longrightarrow> 0 \<le> fst (fold (socialStep sp) ps c)"
  by (induction ps arbitrary: c) (simp_all add: socialStep_nonneg del: socialStep.simps)

lemma scoreSocialPresence_range: "0 \<le> scoreSocialPresence l \<and> scoreSocialPresence l \<le> 100"
proof -
  have "0 \<le> fst (fold (socialStep sp) platforms (0, 0, 0))" for sp
    by (rule fold_socialStep_nonneg) simp
  then show ?thesis
    unfolding scoreSocialPresence_def Let_def by auto
qed

lemma scoreCompanySize_range: "scoreCompanySize l = Inr v \<Longrightarrow> 0 \<le> v \<and> v \<le> 100"
  unfolding scoreCompanySize_def Let_def
  by (auto split: sum.splits if_splits)

lemma scoreMarketCompetitiveness_range:
  "scoreMarketCompetitiveness l = Inr v \<Longrightarrow> 0 \<le> v \<and> v \<le> 100"
  unfolding scoreMarketCompetitiveness_def Let_def
  by (auto split: sum.splits if_splits)

lemma weights_range: "0 \<le> weights k \<and> weights k \<le> 25"
  by (cases k) auto

lemma weighted_fold_range:
  assumes fl: "double_rounding fl"
    and sc: "\<And>k. 0 \<le> scores k \<and> scores k \<le> 100"
  shows "0 \<le> t \<Longrightarrow> t \<le> real_of_int T \<Longrightarrow> 0 \<le> T \<Longrightarrow> T + sum_list (map weights ks) \<le> 100 \<Longrightarrow>
    0 \<le> fold (\<lambda>key total.
             let weightedScore = fl (fl (real_of_int (scores key) / 100) * real_of_int (weights key))
             in fl (total + weightedScore)) ks t
    \<and> fold (\<lambda>key total.
             let weightedScore = fl (fl (real_of_int (scores key) / 100) * real_of_int (weights key))
             in fl (total + weightedScore)) ks t \<le> real_of_int (T + sum_list (map weights ks))"
proof (induction ks arbitrary: t T)
  case Nil
  then show ?case by simp
next
  case (Cons k ks)
  have mono: "\<And>x y. x \<le> y \<Longrightarrow> fl x \<le> fl y"
    using fl by (auto simp: double_rounding_def mono_def)
  have exact: "\<And>n::int. 0 \<le> n \<Longrightarrow> n \<le> 100 \<Longrightarrow> fl (real_of_int n) = real_of_int n"
    using fl by (auto simp: double_rounding_def)
  have w: "0 \<le> weights k" "weights k \<le> 25" using weights_range [of k] by auto
  have ws: "0 \<le> sum_list (map weights ks)"
    by (rule sum_list_nonneg) (use weights_range in auto)
  have Tw: "T + weights k \<le> 100" using Cons.prems ws by simp
  define q where "q = fl (real_of_int (scores k) / 100)"
  have "fl (real_of_int 0) \<le> q" unfolding q_def using sc [of k] by (intro mono) simp
  then have q0: "0 \<le> q" using exact [of 0] by simp
  have "q \<le> fl (real_of_int 1)" unfolding q_def using sc [of k] by (intro mono) simp
  then have q1: "q \<le> 1" using exact [of 1] by simp
  define p where "p = fl (q * real_of_int (weights k))"
  have "fl (real_of_int 0) \<le> p" unfolding p_def using q0 w by (intro mono) simp
  then have p0: "0 \<le> p" using exact [of 0] by simp
  have "q * real_of_int (weights k) \<le> 1 * real_of_int (weights k)"
    using q1 w by (intro mult_right_mono) auto
  then have "p \<le> fl (real_of_int (weights k))" unfolding p_def by (intro mono) simp
  then have p1: "p \<le> real_of_int (weights k)" using exact [of "weights k"] w by simp
  define t' where "t' = fl (t + p)"
  have "fl (real_of_int 0) \<le> t'" unfolding t'_def using Cons.prems p0 by (intro mono) simp
  then have t0: "0 \<le> t'" using exact [of 0] by simp
  have "t + p \<le> real_of_int (T + weights k)" using Cons.prems p1 by simp
  then have "t' \<le> fl (real_of_int (T + weights k))" unfolding t'_def by (intro mono)
  then have t1: "t' \<le> real_of_int (T + weights k)"
    using exact [of "T + weights k"] Tw Cons.prems w by simp
  have "T + weights k + sum_list (map weights ks) \<le> 100" using Cons.prems by simp
  from Cons.IH [OF t0 t1 _ this] Cons.prems w
  show ?case by (simp add: Let_def t'_def p_def q_def add.assoc)
qed

lemma weights_sum: "sum_list (map weights score_keys) = 100"
  by (simp add: score_keys_def)

lemma weightedTotal_range:
  assumes "double_rounding fl" and "\<And>k. 0 \<le> scores k \<and> scores k \<le> 100"
  shows "0 \<le> weightedTotal fl scores \<and> weightedTotal fl scores \<le> 100"
  using weighted_fold_range [OF assms, of 0 0 score_keys]
  unfolding weightedTotal_def by (simp add: weights_sum)

lemma math_round_range: "0 \<le> x \<Longrightarrow> x \<le> 100 \<Longrightarrow> 0 \<le> math_round x \<and> math_round x \<le> 100"
  unfolding math_round_def by (auto simp: floor_le_iff le_floor_iff)


lemma calculateScore_components:
  assumes "calculateScore fl now l = Inr sd"
  shows "0 \<le> componentScores sd k \<and> componentScores sd k \<le> 100"
proof -
  from assms obtain seo size market where
    seo: "scoreSEORanking l = Inr seo" and size: "scoreCompanySize l = Inr size"
    and market: "scoreMarketCompetitiveness l = Inr market"
    and sd: "componentScores sd = (\<lambda>key. case key of
                          WebsiteQuality \<Rightarrow> scoreWebsiteQuality l
                        | SeoRanking \<Rightarrow> seo
                        | AdPresence \<Rightarrow> scoreAdPresence l
                        | ReviewScore \<Rightarrow> scoreReviews l
                        | SocialPresence \<Rightarrow> scoreSocialPresence l
                        | CompanySize \<Rightarrow> size
                        | MarketCompetitiveness \<Rightarrow> market)"
    by (auto simp: calculateScore_def Let_def split: sum.splits)
  show ?thesis
    unfolding sd
    using scoreWebsiteQuality_range [of l] scoreSEORanking_range [OF seo]
      scoreAdPresence_range [of l] scoreReviews_range [of l] scoreSocialPresence_range [of l]
      scoreCompanySize_range [OF size] scoreMarketCompetitiveness_range [OF market]
    by (cases k) simp_all
qed

lemma calculateScore_total:
  assumes "calculateScore fl now l = Inr sd"
  shows "totalScore sd = math_round (weightedTotal fl (componentScores sd))"
  using assms by (auto simp: calculateScore_def Let_def split: sum.splits)

lemma calculateScore_ranges_of_result:
  assumes "double_rounding fl" and "calculateScore fl now l = Inr sd"
  shows "(\<forall>k. 0 \<le> componentScores sd k \<and> componentScores sd k \<le> 100)
         \<and> sum_list (map weights score_keys) = 100
         \<and> 0 \<le> totalScore sd \<and> totalScore sd \<le> 100"
proof -
  have comp: "\<And>k. 0 \<le> componentScores sd k \<and> componentScores sd k \<le> 100"
    using calculateScore_components [OF assms(2)] .
  have "0 \<le> weightedTotal fl (componentScores sd) \<and> weightedTotal fl (componentScores sd) \<le> 100"
    using weightedTotal_range [OF assms(1) comp] .
  then have "0 \<le> totalScore sd \<and> totalScore sd \<le> 100"
    unfolding calculateScore_total [OF assms(2)] using math_round_range by blast
  with comp weights_sum show ?thesis by blast
qed

lemma js_toLowerCase_text:
  "is_text a \<Longrightarrow> is_text b \<Longrightarrow> \<exists>s. js_toLowerCase (js_or (js_or a b) (JStr d)) = Inr s"
  by (cases a; cases b) (auto simp: is_text_def js_or_def)

lemma industryUpper_text: "is_text v \<Longrightarrow> \<exists>u. industryUpper v = Inr u"
  by (cases v) (auto simp: is_text_def)

lemma scoreSEORanking_returns: "text_fields l \<Longrightarrow> \<exists>v. scoreSEORanking l = Inr v"
  using industryUpper_text [of "industry l"]
  by (auto simp: text_fields_def scoreSEORanking_def analyzeIndustryKeywords_def Let_def
      split: sum.splits)

lemma scoreCompanySize_returns: "text_fields l \<Longrightarrow> \<exists>v. scoreCompanySize l = Inr v"
  using js_toLowerCase_text [of "estimated_size l" "estimatedSize l" "''Unknown''"]
  by (auto simp: text_fields_def scoreCompanySize_def Let_def split: sum.splits)

lemma scoreMarketCompetitiveness_returns:
  "text_fields l \<Longrightarrow> \<exists>v. scoreMarketCompetitiveness l = Inr v"
  using js_toLowerCase_text [of "address l" "location l" "''''"]
  by (auto simp: text_fields_def scoreMarketCompetitiveness_def Let_def split: sum.splits)

lemma calculateScore_returns: "text_fields l \<Longrightarrow> \<exists>sd. calculateScore fl now l = Inr sd"
  using scoreSEORanking_returns [of l] scoreCompanySize_returns [of l]
    scoreMarketCompetitiveness_returns [of l]
  by (auto simp: calculateScore_def Let_def split: sum.splits)

text \<open>
  C7. The scoring engine returns a result for every lead whose text fields are strings
  or missing (every Lead Record), and whenever it returns a result, each of the seven
  component scores lies between 0 and 100, the weights of the seven components sum to
  100, and the rounded weighted total lies between 0 and 100. This holds for exact
  arithmetic and for every monotone rounding that is exact on the integers from 0 to 100.
\<close>

theorem calculateScore_ranges:
  assumes "double_rounding fl"
  shows "(text_fields l \<longrightarrow> (\<exists>sd. calculateScore fl now l = Inr sd))
    \<and> (\<forall>sd. calculateScore fl now l = Inr sd \<longrightarrow>
         (\<forall>k. 0 \<le> componentScores sd k \<and> componentScores sd k \<le> 100)
         \<and> sum_list (map weights score_keys) = 100
         \<and> 0 \<le> totalScore sd \<and> totalScore sd \<le> 100)
    \<and> distinct score_keys \<and> length score_keys = 7"
proof -
  have "distinct score_keys \<and> length score_keys = 7"
    by (simp add: score_keys_def)
  then show ?thesis
    using calculateScore_returns [of l fl now]
      calculateScore_ranges_of_result [OF assms, of now l]
    by blast
qed

lemma double_rounding_exact: "double_rounding (\<lambda>x. x)"
  by (simp add: double_rounding_def mono_def)

lemma emptyLead_score:
  "calculateScore (\<lambda>x. x) 1700000000000 emptyLead =
     Inr \<lparr> totalScore = 92, score_data.tier = ''Hot Lead'',
           componentScores = (\<lambda>key. case key of
                          WebsiteQuality \<Rightarrow> 100 | SeoRanking \<Rightarrow> 100 | AdPresence \<Rightarrow> 100
                        | ReviewScore \<Rightarrow> 100 | SocialPresence \<Rightarrow> 100 | CompanySize \<Rightarrow> 40
                        | MarketCompetitiveness \<Rightarrow> 60),
           score_data.recommendations = generateRecommendations (\<lambda>key. case key of
                          WebsiteQuality \<Rightarrow> 100 | SeoRanking \<Rightarrow> 100 | AdPresence \<Rightarrow> 100
                        | ReviewScore \<Rightarrow> 100 | SocialPresence \<Rightarrow> 100 | CompanySize \<Rightarrow> 40
                        | MarketCompetitiveness \<Rightarrow> 60) emptyLead,
           calculatedAt = 1700000000000 \<rparr>"
  by (simp add: calculateScore_def emptyLead_def scoreWebsiteQuality_def scoreSEORanking_def
      scoreAdPresence_def scoreReviews_def scoreSocialPresence_def scoreCompanySize_def
      scoreMarketCompetitiveness_def obj_or_def emptyWebsiteQuality_def emptySeoData_def
      emptyAdPresence_def emptySocialPresence_def num_or_def js_or_def platforms_def
      platformLookup_def majorCities_def weightedTotal_def score_keys_def math_round_def
      determineLeadTier_def toLowerCase_def lowerChar_def Let_def)

text \<open>The hypotheses of C7 hold for the lead with no field set, which scores 92.\<close>

theorem calculateScore_ranges_witness:
  "double_rounding (\<lambda>x. x) \<and> text_fields emptyLead
   \<and> (\<exists>sd. calculateScore (\<lambda>x. x) 1700000000000 emptyLead = Inr sd
        \<and> (\<forall>k. 0 \<le> componentScores sd k \<and> componentScores sd k \<le> 100)
        \<and> sum_list (map weights score_keys) = 100
        \<and> 0 \<le> totalScore sd \<and> totalScore sd \<le> 100 \<and> totalScore sd = 92)"
proof -
  have t: "text_fields emptyLead" by (simp add: text_fields_def is_text_def emptyLead_def)
  show ?thesis
    using calculateScore_ranges [OF double_rounding_exact, of emptyLead 1700000000000]
      double_rounding_exact emptyLead_score t
    by simp
qed

lemma scoreEntry_error:
  "calculateScore fl now l = Inl e \<Longrightarrow>
   scoreEntry fl now l = \<lparr> base = l\<lparr> tier := Some ''Error'' \<rparr>, score = 0 \<rparr>"
  by (simp add: scoreEntry_def)

lemma scoreLeads_mset: "mset (scoreLeads fl now ls) = mset (map (scoreEntry fl now) ls)"
  by (simp add: scoreLeads_def)

lemma scoreLeads_descending:
  "sorted_wrt (\<lambda>a b. score a \<ge> score b) (scoreLeads fl now ls)"
proof -
  have "sorted (map (\<lambda>entry. - score entry) (scoreLeads fl now ls))"
    unfolding scoreLeads_def by (rule sorted_sort_key)
  then show ?thesis by (simp add: sorted_map)
qed

text \<open>
  C10. For every input list the batch scorer returns as many entries as it was given
  leads, namely the scored entries of the input leads in some order; a lead whose
  scoring raises an error appears in the result with score 0 and tier \<open>'Error'\<close>, and the
  result is sorted by score in descending order.
\<close>

theorem scoreLeads_keeps_every_lead:
  "length (scoreLeads fl now ls) = length ls
   \<and> mset (scoreLeads fl now ls) = mset (map (scoreEntry fl now) ls)
   \<and> (\<forall>l \<in> set ls. \<forall>e. calculateScore fl now l = Inl e \<longrightarrow>
         \<lparr> base = l\<lparr> tier := Some ''Error'' \<rparr>, score = 0 \<rparr> \<in> set (scoreLeads fl now ls))
   \<and> sorted_wrt (\<lambda>a b. score a \<ge> score b) (scoreLeads fl now ls)"
proof -
  have len: "length (scoreLeads fl now ls) = length ls"
    by (simp add: scoreLeads_def)
  have "set (scoreLeads fl now ls) = scoreEntry fl now ` set ls"
    by (simp add: scoreLeads_def)
  then have err: "\<forall>l \<in> set ls. \<forall>e. calculateScore fl now l = Inl e \<longrightarrow>
         \<lparr> base = l\<lparr> tier := Some ''Error'' \<rparr>, score = 0 \<rparr> \<in> set (scoreLeads fl now ls)"
    using scoreEntry_error [of fl now] by (metis imageI)
  from len err scoreLeads_mset scoreLeads_descending show ?thesis by blast
qed

lemma numericSizeLead_raises: "calculateScore fl now numericSizeLead = Inl TypeError"
  by (simp add: calculateScore_def numericSizeLead_def emptyLead_def scoreSEORanking_def
      scoreCompanySize_def obj_or_def emptySeoData_def js_or_def Let_def)

text \<open>C10 on a list whose first lead raises a \<open>TypeError\<close> in the scorer.\<close>

theorem scoreLeads_keeps_every_lead_witness:
  "numericSizeLead \<in> set [numericSizeLead, emptyLead]
   \<and> calculateScore (\<lambda>x. x) 1700000000000 numericSizeLead = Inl TypeError
   \<and> length (scoreLeads (\<lambda>x. x) 1700000000000 [numericSizeLead, emptyLead]) = 2
   \<and> \<lparr> base = numericSizeLead\<lparr> tier := Some ''Error'' \<rparr>, score = 0 \<rparr>
        \<in> set (scoreLeads (\<lambda>x. x) 1700000000000 [numericSizeLead, emptyLead])"
  using scoreLeads_keeps_every_lead [of "\<lambda>x. x" 1700000000000 "[numericSizeLead, emptyLead]"]
    numericSizeLead_raises [of "\<lambda>x. x" 1700000000000]
  by simp

section \<open>Webhooks, processors and scheduler: proofs\<close>

lemma leads_addJob [simp]: "leads (addJob w q t d opts) = leads w"
  by (simp add: addJob_def)
lemma messages_addJob [simp]: "messages (addJob w q t d opts) = messages w"
  by (simp add: addJob_def)

lemma leads_recordLeadActivity [simp]: "leads (recordLeadActivity w now lid txt u) = leads w"
  by (simp add: recordLeadActivity_def)
lemma messages_recordLeadActivity [simp]: "messages (recordLeadActivity w now lid txt u) = messages w"
  by (simp add: recordLeadActivity_def)
lemma jobs_recordLeadActivity [simp]: "jobs (recordLeadActivity w now lid txt u) = jobs w"
  by (simp add: recordLeadActivity_def)

lemma leads_updateLead:
  "leads (updateLead w lid f) = (case leads w lid of None \<Rightarrow> leads w | Some r \<Rightarrow> (leads w)(lid \<mapsto> f r))"
  by (simp add: updateLead_def split: option.splits)
lemma messages_updateLead [simp]: "messages (updateLead w lid f) = messages w"
  by (simp add: updateLead_def split: option.splits)
lemma jobs_updateLead [simp]: "jobs (updateLead w lid f) = jobs w"
  by (simp add: updateLead_def split: option.splits)

lemma leads_updateLeadStatus:
  "leads (updateLeadStatus w now lid st notes) =
     (case leads w lid of None \<Rightarrow> leads w
      | Some r \<Rightarrow> (leads w)(lid \<mapsto> r\<lparr> lead.status := st, updated_at := now \<rparr>))"
  by (simp add: updateLeadStatus_def Let_def leads_updateLead split: option.splits)
lemma messages_updateLeadStatus [simp]: "messages (updateLeadStatus w now lid st notes) = messages w"
  by (simp add: updateLeadStatus_def Let_def split: option.splits)
lemma jobs_updateLeadStatus [simp]: "jobs (updateLeadStatus w now lid st notes) = jobs w"
  by (simp add: updateLeadStatus_def Let_def split: option.splits)

lemma leads_incrementEngagementScore:
  "leads (incrementEngagementScore w now lid points) =
     (case leads w lid of None \<Rightarrow> leads w
      | Some r \<Rightarrow> (leads w)(lid \<mapsto> r\<lparr> lead_score :=
            Some (min ((case lead_score r of None \<Rightarrow> 0 | Some s \<Rightarrow> s) + points) 100),
            updated_at := now \<rparr>))"
  by (simp add: incrementEngagementScore_def Let_def leads_updateLead split: option.splits)
lemma messages_incrementEngagementScore [simp]:
  "messages (incrementEngagementScore w now lid points) = messages w"
  by (simp add: incrementEngagementScore_def Let_def split: option.splits)
lemma jobs_incrementEngagementScore [simp]:
  "jobs (incrementEngagementScore w now lid points) = jobs w"
  by (simp add: incrementEngagementScore_def Let_def split: option.splits)

lemma leads_cancelScheduledFollowUps [simp]: "leads (cancelScheduledFollowUps w lid) = leads w"
  by (simp add: cancelScheduledFollowUps_def Let_def)
lemma messages_cancelScheduledFollowUps [simp]:
  "messages (cancelScheduledFollowUps w lid) = messages w"
  by (simp add: cancelScheduledFollowUps_def Let_def)

lemma leads_updateMessage [simp]: "leads (updateMessage w msg u) = leads w"
  by (simp add: updateMessage_def)
lemma jobs_updateMessage [simp]: "jobs (updateMessage w msg u) = jobs w"
  by (simp add: updateMessage_def)

lemma leads_handleEmailClicked:
  "leads w lid = Some r \<Longrightarrow>
   leads (handleEmailClicked w now lid msg link) =
     (leads w)(lid \<mapsto> r\<lparr> lead_score :=
            Some (min ((case lead_score r of None \<Rightarrow> 0 | Some s \<Rightarrow> s) + 10) 100),
            updated_at := now, lead.status := Qualified, updated_at := now \<rparr>)"
  by (simp add: handleEmailClicked_def Let_def leads_updateLeadStatus
      leads_incrementEngagementScore)

lemma scoreOf_handleEmailOpened:
  "leads w lid = Some r \<Longrightarrow>
   scoreOf (handleEmailOpened w now lid msg) lid =
     Some (Some (min ((case lead_score r of None \<Rightarrow> 0 | Some s \<Rightarrow> s) + 5) 100))"
  by (simp add: handleEmailOpened_def Let_def leads_updateLeadStatus scoreOf_def
      leads_incrementEngagementScore)

lemma setStatusOf_idem [simp]:
  "setStatusOf st lid (setStatusOf st lid S) = setStatusOf st lid S"
  by (auto simp: setStatusOf_def fun_eq_iff option.map_comp comp_def)

lemma leadState_updateLeadStatus:
  "leadState (updateLeadStatus w now lid st notes) = setStatusOf st lid (leadState w)"
  by (auto simp: leadState_def setStatusOf_def fun_eq_iff leads_updateLeadStatus
      split: option.splits)

lemma leadState_updateMessage [simp]: "leadState (updateMessage w msg u) = leadState w"
  by (simp add: leadState_def fun_eq_iff)

lemma setColumn_keeps:
  "message.message_id (fold setColumn u m) = message.message_id m
   \<and> message.lead_id (fold setColumn u m) = message.lead_id m
   \<and> message.id_col (fold setColumn u m) = message.id_col m"
proof (induction u arbitrary: m)
  case Nil
  show ?case by simp
next
  case (Cons c u)
  show ?case using Cons.IH [of "setColumn c m"] by (cases c) simp_all
qed

lemma messages_updateMessage:
  "messages (updateMessage w msg u) =
     map (\<lambda>m. if message.id_col m = message.id_col msg \<and> u \<noteq> []
               then fold setColumn u m else m) (messages w)"
  by (auto simp: updateMessage_def)

lemma messages_handleEmailOpened [simp]: "messages (handleEmailOpened w now lid msg) = messages w"
  by (simp add: handleEmailOpened_def Let_def)

lemma messages_handleEmailClicked [simp]:
  "messages (handleEmailClicked w now lid msg link) = messages w"
  by (simp add: handleEmailClicked_def Let_def)

lemma messages_processSendGridEvent:
  "\<exists>g. messages (processSendGridEvent w now ev) = map g (messages w)
       \<and> (\<forall>m. message.message_id (g m) = message.message_id m
              \<and> message.lead_id (g m) = message.lead_id m)"
proof (cases "single (filter (\<lambda>m. message.message_id m = Some (sg_message_id ev)) (messages w))")
  case None
  then have "messages (processSendGridEvent w now ev) = map (\<lambda>m. m) (messages w)"
    by (simp add: processSendGridEvent_def)
  then show ?thesis by blast
next
  case (Some msg)
  define ms where "ms = sendgrid_event.timestamp ev * 1000"
  define u where "u =
    (if sendgrid_event.event ev = ''delivered''
     then (if validDate ms then [SetStatus ''delivered'', SetDeliveredAt ms] else [])
     else if sendgrid_event.event ev = ''open''
     then (if validDate ms then [SetOpenedAt ms] else [])
     else if sendgrid_event.event ev = ''click''
     then (if validDate ms then [SetClickedAt ms] else [])
     else if sendgrid_event.event ev = ''bounce'' \<or> sendgrid_event.event ev = ''dropped''
     then [SetStatus ''bounced'', SetErrorMessage (str_or (reason ev) ''Email bounced'')]
     else if sendgrid_event.event ev = ''spam_report''
     then [SetStatus ''failed'', SetErrorMessage ''Marked as spam'']
     else [])"
  have "messages (processSendGridEvent w now ev) =
       map (\<lambda>m. if message.id_col m = message.id_col msg \<and> u \<noteq> []
                 then fold setColumn u m else m) (messages w)"
    unfolding u_def ms_def
    by (simp add: processSendGridEvent_def Let_def Some messages_updateMessage)
  moreover have "\<forall>m. message.message_id (if message.id_col m = message.id_col msg \<and> u \<noteq> []
                 then fold setColumn u m else m) = message.message_id m
       \<and> message.lead_id (if message.id_col m = message.id_col msg \<and> u \<noteq> []
                 then fold setColumn u m else m) = message.lead_id m"
    using setColumn_keeps by simp
  ultimately show ?thesis by blast
qed

lemma single_map: "single (map g xs) = map_option g (single xs)"
  by (cases xs rule: single.cases) simp_all

lemma found_after_processSendGridEvent:
  assumes "single (filter (\<lambda>m. message.message_id m = Some k) (messages w)) = Some msg"
  shows "\<exists>msg'. single (filter (\<lambda>m. message.message_id m = Some k)
                    (messages (processSendGridEvent w now ev))) = Some msg'
               \<and> message.lead_id msg' = message.lead_id msg"
proof -
  obtain g where g: "messages (processSendGridEvent w now ev) = map g (messages w)"
    and keep: "\<And>m. message.message_id (g m) = message.message_id m"
              "\<And>m. message.lead_id (g m) = message.lead_id m"
    using messages_processSendGridEvent [of w now ev] by blast
  have "filter (\<lambda>m. message.message_id m = Some k) (map g (messages w)) =
        map g (filter (\<lambda>m. message.message_id m = Some k) (messages w))"
    by (simp add: filter_map comp_def keep)
  then show ?thesis using assms keep by (simp add: g single_map)
qed

lemma processSendGridEvent_status:
  assumes "single (filter (\<lambda>m. message.message_id m = Some (sg_message_id ev)) (messages w)) = Some msg"
    and "leads w (message.lead_id msg) = Some row"
    and "validDate (sendgrid_event.timestamp ev * 1000)"
  shows "(sendgrid_event.event ev = ''delivered'' \<longrightarrow>
            statusOf (processSendGridEvent w now ev) (message.lead_id msg) = Some Contacted)
       \<and> (sendgrid_event.event ev = ''click'' \<longrightarrow>
            statusOf (processSendGridEvent w now ev) (message.lead_id msg) = Some Qualified)
       \<and> (sendgrid_event.event ev \<in> {''bounce'', ''dropped'', ''spam_report''} \<longrightarrow>
            statusOf (processSendGridEvent w now ev) (message.lead_id msg) = Some Lost)"
  using assms
  by (auto simp: processSendGridEvent_def Let_def statusOf_def leads_updateLeadStatus
      leads_handleEmailClicked)

lemma processSendGridEvent_score:
  assumes "single (filter (\<lambda>m. message.message_id m = Some (sg_message_id ev)) (messages w)) = Some msg"
    and "leads w (message.lead_id msg) = Some row"
    and "validDate (sendgrid_event.timestamp ev * 1000)"
  shows "(sendgrid_event.event ev = ''open'' \<longrightarrow>
            scoreOf (processSendGridEvent w now ev) (message.lead_id msg)
              = Some (Some (min ((case lead_score row of None \<Rightarrow> 0 | Some s \<Rightarrow> s) + 5) 100)))
       \<and> (sendgrid_event.event ev = ''click'' \<longrightarrow>
            scoreOf (processSendGridEvent w now ev) (message.lead_id msg)
              = Some (Some (min ((case lead_score row of None \<Rightarrow> 0 | Some s \<Rightarrow> s) + 10) 100)))"
proof -
  have "scoreOf (updateMessage w' msg u) k = scoreOf w' k" for w' u k
    by (simp add: scoreOf_def)
  then show ?thesis
    using assms scoreOf_handleEmailOpened [OF assms(2), of now msg]
      leads_handleEmailClicked [OF assms(2), of now msg "sendgrid_event.url ev"]
    by (simp add: processSendGridEvent_def Let_def scoreOf_def)
qed

lemma leadState_processSendGridEvent_found:
  assumes "single (filter (\<lambda>m. message.message_id m = Some (sg_message_id ev)) (messages w)) = Some msg"
    and "sendgrid_event.event ev \<noteq> ''open''" and "sendgrid_event.event ev \<noteq> ''click''"
  shows "leadState (processSendGridEvent w now ev) =
     (if sendgrid_event.event ev = ''delivered''
      then (if validDate (sendgrid_event.timestamp ev * 1000)
            then setStatusOf Contacted (message.lead_id msg) (leadState w) else leadState w)
      else if sendgrid_event.event ev \<in> {''bounce'', ''dropped'', ''spam_report''}
      then setStatusOf Lost (message.lead_id msg) (leadState w)
      else leadState w)"
  using assms
  by (simp add: processSendGridEvent_def Let_def leadState_updateLeadStatus)

lemma replay_status_event:
  assumes "sendgrid_event.event ev \<noteq> ''open''" and "sendgrid_event.event ev \<noteq> ''click''"
  shows "leadState (processSendGridEvent (processSendGridEvent w now ev) now' ev)
         = leadState (processSendGridEvent w now ev)"
proof (cases "single (filter (\<lambda>m. message.message_id m = Some (sg_message_id ev)) (messages w))")
  case None
  then have "processSendGridEvent w t ev = w" for t by (simp add: processSendGridEvent_def)
  then show ?thesis by simp
next
  case (Some msg)
  from found_after_processSendGridEvent [OF Some, of now ev]
  obtain msg' where found': "single (filter (\<lambda>m. message.message_id m = Some (sg_message_id ev))
                    (messages (processSendGridEvent w now ev))) = Some msg'"
    and lid: "message.lead_id msg' = message.lead_id msg" by blast
  show ?thesis
    unfolding leadState_processSendGridEvent_found [OF found' assms]
    unfolding leadState_processSendGridEvent_found [OF Some assms] lid
    by simp
qed

lemma replay_increment:
  assumes found: "single (filter (\<lambda>m. message.message_id m = Some (sg_message_id ev)) (messages w)) = Some msg"
    and row: "leads w (message.lead_id msg) = Some row"
    and valid: "validDate (sendgrid_event.timestamp ev * 1000)"
    and kind: "sendgrid_event.event ev = ''open'' \<and> points = 5
               \<or> sendgrid_event.event ev = ''click'' \<and> points = 10"
  shows "scoreOf (processSendGridEvent w now ev) (message.lead_id msg)
           = Some (Some (min ((case lead_score row of None \<Rightarrow> 0 | Some s \<Rightarrow> s) + points) 100))
       \<and> scoreOf (processSendGridEvent (processSendGridEvent w now ev) now' ev) (message.lead_id msg)
           = Some (Some (min (min ((case lead_score row of None \<Rightarrow> 0 | Some s \<Rightarrow> s) + points) 100
                              + points) 100))"
proof -
  let ?s1 = "min ((case lead_score row of None \<Rightarrow> 0 | Some s \<Rightarrow> s) + points) 100"
  have one: "scoreOf (processSendGridEvent w now ev) (message.lead_id msg) = Some (Some ?s1)"
    using processSendGridEvent_score [OF found row valid, of now] kind by auto
  then obtain row' where row': "leads (processSendGridEvent w now ev) (message.lead_id msg) = Some row'"
    and sc': "lead_score row' = Some ?s1"
    by (auto simp: scoreOf_def)
  from found_after_processSendGridEvent [OF found, of now ev]
  obtain msg' where found': "single (filter (\<lambda>m. message.message_id m = Some (sg_message_id ev))
                    (messages (processSendGridEvent w now ev))) = Some msg'"
    and lid: "message.lead_id msg' = message.lead_id msg" by blast
  have "scoreOf (processSendGridEvent (processSendGridEvent w now ev) now' ev) (message.lead_id msg)
           = Some (Some (min (?s1 + points) 100))"
    using processSendGridEvent_score [OF found' row' [folded lid] valid, of now'] kind sc' lid
    by auto
  with one show ?thesis by simp
qed

lemma leads_scheduleFollowUpSequence [simp]: "leads (scheduleFollowUpSequence w lid r) = leads w"
  by (simp add: scheduleFollowUpSequence_def followUpSchedule_def)
lemma messages_scheduleFollowUpSequence [simp]:
  "messages (scheduleFollowUpSequence w lid r) = messages w"
  by (simp add: scheduleFollowUpSequence_def followUpSchedule_def)
lemma jobs_scheduleFollowUpSequence:
  "jobs (scheduleFollowUpSequence w lid r) = jobs w @
     [\<lparr> queue = FollowupQ, jobType = ''followup-1'',
        data = FollowupData lid (industry r) ''followup-1'', job.priority = 5,
        job.delay = 259200000 \<rparr>,
      \<lparr> queue = FollowupQ, jobType = ''followup-2'',
        data = FollowupData lid (industry r) ''followup-2'', job.priority = 5,
        job.delay = 604800000 \<rparr>,
      \<lparr> queue = FollowupQ, jobType = ''case-study'',
        data = FollowupData lid (industry r) ''case-study'', job.priority = 5,
        job.delay = 1209600000 \<rparr>]"
  by (simp add: scheduleFollowUpSequence_def followUpSchedule_def addJob_def)

lemma contactedWorld_leads:
  "leads (contactedWorld st sc) =
     [7 \<mapsto> emptyLead\<lparr> company_name := ''ABC Plumbing'', lead.status := st, lead_score := sc \<rparr>]"
  by (simp add: contactedWorld_def emptyWorld_def)

lemma contactedWorld_messages: "messages (contactedWorld st sc) = [introMessage]"
  by (simp add: contactedWorld_def emptyWorld_def)

lemma contactedWorld_jobs:
  "jobs (contactedWorld st sc) =
     [\<lparr> queue = FollowupQ, jobType = ''followup-1'',
        data = FollowupData 7 JUndefined ''followup-1'', job.priority = 5,
        job.delay = 259200000 \<rparr>,
      \<lparr> queue = FollowupQ, jobType = ''followup-2'',
        data = FollowupData 7 JUndefined ''followup-2'', job.priority = 5,
        job.delay = 604800000 \<rparr>,
      \<lparr> queue = FollowupQ, jobType = ''case-study'',
        data = FollowupData 7 JUndefined ''case-study'', job.priority = 5,
        job.delay = 1209600000 \<rparr>]"
  by (simp add: contactedWorld_def emptyWorld_def jobs_scheduleFollowUpSequence emptyLead_def)

lemma contactedWorld_found:
  "single (filter (\<lambda>m. message.message_id m = Some (sg_message_id (sendgridEvent kind)))
     (messages (contactedWorld st sc))) = Some introMessage"
  by (simp add: contactedWorld_messages introMessage_def sendgridEvent_def)

lemma contactedWorld_row:
  "leads (contactedWorld st sc) (message.lead_id introMessage) =
     Some (emptyLead\<lparr> company_name := ''ABC Plumbing'', lead.status := st, lead_score := sc \<rparr>)"
  by (simp add: contactedWorld_leads introMessage_def)

lemma sendgridEvent_valid: "validDate (sendgrid_event.timestamp (sendgridEvent kind) * 1000)"
  by (simp add: sendgridEvent_def validDate_def)

lemma sendgridEvent_kind [simp]: "sendgrid_event.event (sendgridEvent kind) = kind"
  by (simp add: sendgridEvent_def)

text \<open>
  C2 as stated fails: a delivered event for a lead that is already qualified sets its
  status back to contacted.
\<close>

theorem delivered_moves_qualified_back_counterexample:
  "statusOf (contactedWorld Qualified (Some 92)) 7 = Some Qualified
   \<and> statusOf (processSendGridEvent (contactedWorld Qualified (Some 92)) 1700000100000
        (sendgridEvent ''delivered'')) 7 = Some Contacted"
  using processSendGridEvent_status [OF contactedWorld_found contactedWorld_row sendgridEvent_valid,
      of "''delivered''" Qualified "Some 92" 1700000100000]
  by (simp add: statusOf_def contactedWorld_leads introMessage_def)

text \<open>
  C3 as stated fails: a click event applied twice to a lead with score 50 leaves the
  score at 70, applied once at 60.
\<close>

theorem click_replay_counterexample:
  "scoreOf (processSendGridEvent (contactedWorld Contacted (Some 50)) 1700000100000
        (sendgridEvent ''click'')) 7 = Some (Some 60)
   \<and> scoreOf (processSendGridEvent
        (processSendGridEvent (contactedWorld Contacted (Some 50)) 1700000100000
           (sendgridEvent ''click''))
        1700000100000 (sendgridEvent ''click'')) 7 = Some (Some 70)"
  using replay_increment [OF contactedWorld_found contactedWorld_row sendgridEvent_valid,
      of "''click''" 10 Contacted "Some 50" 1700000100000 1700000100000]
  by (simp add: introMessage_def)

lemma leads_triggerHotLeadCampaign [simp]:
  "leads (triggerHotLeadCampaign e w lid r sd) = leads w"
  by (simp add: triggerHotLeadCampaign_def Let_def)
lemma messages_triggerHotLeadCampaign [simp]:
  "messages (triggerHotLeadCampaign e w lid r sd) = messages w"
  by (simp add: triggerHotLeadCampaign_def Let_def)

lemma scoreSingleLead_persists:
  assumes "leads w lid = Some row" and "scoreSingleLead fl e now w lid = Inr (w', r)"
  shows "\<exists>sd. calculateScore fl now row = Inr sd \<and> r = (lid, totalScore sd, score_data.tier sd)
            \<and> scoreOf w' lid = Some (Some (totalScore sd)) \<and> messages w' = messages w"
  using assms
  by (auto simp: scoreSingleLead_def Let_def scoreOf_def leads_updateLead split: sum.splits)

lemma scoreSingleLead_below_80:
  assumes "leads w lid = Some row" and "calculateScore fl now row = Inr sd"
    and "totalScore sd < 80"
  shows "\<exists>w'. scoreSingleLead fl e now w lid = Inr (w', (lid, totalScore sd, score_data.tier sd))
            \<and> jobs w' = jobs w"
  using assms by (simp add: scoreSingleLead_def Let_def)

lemma jobs_triggerHotLeadCampaign:
  "jobs (triggerHotLeadCampaign e w lid row sd) =
     (if (case hotLeadThreshold e of None \<Rightarrow> False | Some t \<Rightarrow> totalScore sd < t)
         \<or> (\<exists>m \<in> set (messages w). message.lead_id m = lid)
      then jobs w
      else jobs w @
        [\<lparr> queue = EmailQ, jobType = ''send-intro-email'',
           data = IntroEmailData lid ''intro'' (industry row) ''high'' True,
           job.priority = 10, job.delay = 300000 \<rparr>,
         \<lparr> queue = FollowupQ, jobType = ''followup-1'',
           data = FollowupData lid (industry row) ''followup-1'', job.priority = 5,
           job.delay = 259200000 \<rparr>,
         \<lparr> queue = FollowupQ, jobType = ''followup-2'',
           data = FollowupData lid (industry row) ''followup-2'', job.priority = 5,
           job.delay = 604800000 \<rparr>,
         \<lparr> queue = FollowupQ, jobType = ''case-study'',
           data = FollowupData lid (industry row) ''case-study'', job.priority = 5,
           job.delay = 1209600000 \<rparr>])"
proof -
  have "(length (take 1 (filter (\<lambda>m. message.lead_id m = lid) (messages w))) > 0)
        = (\<exists>m \<in> set (messages w). message.lead_id m = lid)"
    by (auto simp: filter_empty_conv)
  then show ?thesis
    by (simp add: triggerHotLeadCampaign_def Let_def jobs_scheduleFollowUpSequence addJob_def)
qed

lemma scoreSingleLead_hot:
  assumes "leads w lid = Some row" and "calculateScore fl now row = Inr sd"
    and "totalScore sd \<ge> 80"
  shows "\<exists>w'. scoreSingleLead fl e now w lid = Inr (w', (lid, totalScore sd, score_data.tier sd))
            \<and> jobs w' = jobs (triggerHotLeadCampaign e w lid row sd)"
  using assms
  by (simp add: scoreSingleLead_def Let_def jobs_triggerHotLeadCampaign)

lemma reviewedLead_score:
  "\<exists>sd. calculateScore (\<lambda>x. x) now reviewedLead = Inr sd \<and> totalScore sd = 79
        \<and> score_data.tier sd = ''Warm Lead''"
  by (simp add: calculateScore_def reviewedLead_def emptyLead_def scoreWebsiteQuality_def
      scoreSEORanking_def
      scoreAdPresence_def scoreReviews_def scoreSocialPresence_def scoreCompanySize_def
      scoreMarketCompetitiveness_def obj_or_def emptyWebsiteQuality_def emptySeoData_def
      emptyAdPresence_def emptySocialPresence_def num_or_def js_or_def platforms_def
      platformLookup_def majorCities_def weightedTotal_def score_keys_def math_round_def
      determineLeadTier_def toLowerCase_def lowerChar_def Let_def)

lemma threshold_70:
  "hotLeadThreshold (defaultEnv\<lparr> AUTO_EMAIL_THRESHOLD := Some ''70'' \<rparr>) = Some 70"
  by (simp add: hotLeadThreshold_def defaultEnv_def str_or_def parseInt_def digitOf_def Let_def)

text \<open>
  C5 at a failing input: the threshold is configured as 70, the lead scores 79 and has
  no message, and the scoring of the lead enqueues no job (the caller's fixed bound of 80
  comes before the configured threshold is read).
\<close>

theorem scoreSingleLead_threshold_70_score_79:
  "hotLeadThreshold (defaultEnv\<lparr> AUTO_EMAIL_THRESHOLD := Some ''70'' \<rparr>) = Some 70
   \<and> messages (emptyWorld\<lparr> leads := [7 \<mapsto> reviewedLead] \<rparr>) = []
   \<and> map_sum (\<lambda>err. err) (\<lambda>res. (jobs (fst res), snd res))
        (scoreSingleLead (\<lambda>x. x) (defaultEnv\<lparr> AUTO_EMAIL_THRESHOLD := Some ''70'' \<rparr>)
           1700000000000 (emptyWorld\<lparr> leads := [7 \<mapsto> reviewedLead] \<rparr>) 7)
      = Inr ([], (7, 79, ''Warm Lead''))"
proof -
  obtain sd where sd: "calculateScore (\<lambda>x. x) 1700000000000 reviewedLead = Inr sd"
    "totalScore sd = 79" "score_data.tier sd = ''Warm Lead''"
    using reviewedLead_score by blast
  have row: "leads (emptyWorld\<lparr> leads := [7 \<mapsto> reviewedLead] \<rparr>) 7 = Some reviewedLead"
    by simp
  from scoreSingleLead_below_80 [OF row sd(1), of "defaultEnv\<lparr> AUTO_EMAIL_THRESHOLD := Some ''70'' \<rparr>"]
    sd(2,3)
  obtain w' where
    "scoreSingleLead (\<lambda>x. x) (defaultEnv\<lparr> AUTO_EMAIL_THRESHOLD := Some ''70'' \<rparr>)
       1700000000000 (emptyWorld\<lparr> leads := [7 \<mapsto> reviewedLead] \<rparr>) 7
     = Inr (w', (7, 79, ''Warm Lead''))"
    and "jobs w' = jobs (emptyWorld\<lparr> leads := [7 \<mapsto> reviewedLead] \<rparr>)"
    by auto
  then show ?thesis using threshold_70 by (simp add: emptyWorld_def)
qed

lemma jobs_runDailyScraping:
  "jobs (runDailyScraping e now w) = jobs w @
     [\<lparr> queue = ScrapingQ, jobType = ''daily-scraping'',
        data = ScrapingData (Some (length (scraping_jobs w)))
                 (case TARGET_INDUSTRIES e of
                    Some s \<Rightarrow> split_char CHR '','' s
                  | None \<Rightarrow> [''HVAC'', ''PLUMBING'', ''ROOFING'', ''ELECTRICAL''])
                 (case TARGET_LOCATIONS e of
                    Some s \<Rightarrow> split_char CHR '','' s
                  | None \<Rightarrow> [''Phoenix, AZ'', ''Los Angeles, CA'', ''Houston, TX'']) 25,
        job.priority = 7, job.delay = 0 \<rparr>]"
  by (simp add: runDailyScraping_def createScrapingJobRecord_def addJob_def Let_def)

lemma scraping_jobs_runDailyScraping:
  "scraping_jobs (runDailyScraping e now w) = scraping_jobs w @
     [\<lparr> scraping_job.id_col = length (scraping_jobs w),
        industries = (case TARGET_INDUSTRIES e of
                        Some s \<Rightarrow> split_char CHR '','' s
                      | None \<Rightarrow> [''HVAC'', ''PLUMBING'', ''ROOFING'', ''ELECTRICAL'']),
        locations = (case TARGET_LOCATIONS e of
                       Some s \<Rightarrow> split_char CHR '','' s
                     | None \<Rightarrow> [''Phoenix, AZ'', ''Los Angeles, CA'', ''Houston, TX'']),
        scraping_job.status = ''pending'', scraping_job.created_at = now \<rparr>]"
  by (simp add: runDailyScraping_def createScrapingJobRecord_def addJob_def Let_def)

lemma jobs_runWeeklyScraping:
  "jobs (runWeeklyScraping now w) = jobs w @
     [\<lparr> queue = ScrapingQ, jobType = ''weekly-scraping'',
        data = ScrapingData (Some (length (scraping_jobs w)))
                 [''HVAC'', ''PLUMBING'', ''ROOFING'', ''ELECTRICAL'']
                 [''Phoenix, AZ'', ''Los Angeles, CA'', ''Houston, TX'', ''Miami, FL'',
                  ''Atlanta, GA'', ''Dallas, TX'', ''Chicago, IL'', ''New York, NY''] 100,
        job.priority = 5, job.delay = 0 \<rparr>]"
  by (simp add: runWeeklyScraping_def createScrapingJobRecord_def addJob_def Let_def)

lemma scraping_jobs_runWeeklyScraping:
  "scraping_jobs (runWeeklyScraping now w) = scraping_jobs w @
     [\<lparr> scraping_job.id_col = length (scraping_jobs w),
        industries = [''HVAC'', ''PLUMBING'', ''ROOFING'', ''ELECTRICAL''],
        locations = [''Phoenix, AZ'', ''Los Angeles, CA'', ''Houston, TX'', ''Miami, FL'',
                     ''Atlanta, GA'', ''Dallas, TX'', ''Chicago, IL'', ''New York, NY''],
        scraping_job.status = ''pending'', scraping_job.created_at = now \<rparr>]"
  by (simp add: runWeeklyScraping_def createScrapingJobRecord_def addJob_def Let_def)

text \<open>
  C8 (as amended). Every firing of the daily scraping trigger appends one pending record
  to \<open>scraping_jobs\<close> and enqueues one new daily-scraping job that carries the record's
  identifier, whatever the state of the store and of the queues and whatever the time:
  the callback reads no record of an earlier firing. Two firings therefore insert two
  records and enqueue two jobs. The weekly scraping trigger does the same with its
  weekly-scraping job.
\<close>

theorem runDailyScraping_always_enqueues:
  "length (dailyScrapingJobs (runDailyScraping e now w)) = length (dailyScrapingJobs w) + 1
   \<and> length (dailyScrapingJobs (runDailyScraping e now' (runDailyScraping e now w)))
       = length (dailyScrapingJobs w) + 2
   \<and> jobs (runDailyScraping e now w) = jobs w @
       [\<lparr> queue = ScrapingQ, jobType = ''daily-scraping'',
          data = ScrapingData (Some (length (scraping_jobs w)))
                   (case TARGET_INDUSTRIES e of
                      Some s \<Rightarrow> split_char CHR '','' s
                    | None \<Rightarrow> [''HVAC'', ''PLUMBING'', ''ROOFING'', ''ELECTRICAL''])
                   (case TARGET_LOCATIONS e of
                      Some s \<Rightarrow> split_char CHR '','' s
                    | None \<Rightarrow> [''Phoenix, AZ'', ''Los Angeles, CA'', ''Houston, TX'']) 25,
          job.priority = 7, job.delay = 0 \<rparr>]
   \<and> scraping_jobs (runDailyScraping e now w) = scraping_jobs w @
       [\<lparr> scraping_job.id_col = length (scraping_jobs w),
          industries = (case TARGET_INDUSTRIES e of
                          Some s \<Rightarrow> split_char CHR '','' s
                        | None \<Rightarrow> [''HVAC'', ''PLUMBING'', ''ROOFING'', ''ELECTRICAL'']),
          locations = (case TARGET_LOCATIONS e of
                         Some s \<Rightarrow> split_char CHR '','' s
                       | None \<Rightarrow> [''Phoenix, AZ'', ''Los Angeles, CA'', ''Houston, TX'']),
          scraping_job.status = ''pending'', scraping_job.created_at = now \<rparr>]
   \<and> length (scraping_jobs (runDailyScraping e now' (runDailyScraping e now w)))
       = length (scraping_jobs w) + 2
   \<and> jobs (runWeeklyScraping now w) = jobs w @
       [\<lparr> queue = ScrapingQ, jobType = ''weekly-scraping'',
          data = ScrapingData (Some (length (scraping_jobs w)))
                   [''HVAC'', ''PLUMBING'', ''ROOFING'', ''ELECTRICAL'']
                   [''Phoenix, AZ'', ''Los Angeles, CA'', ''Houston, TX'', ''Miami, FL'',
                    ''Atlanta, GA'', ''Dallas, TX'', ''Chicago, IL'', ''New York, NY''] 100,
          job.priority = 5, job.delay = 0 \<rparr>]
   \<and> scraping_jobs (runWeeklyScraping now w) = scraping_jobs w @
       [\<lparr> scraping_job.id_col = length (scraping_jobs w),
          industries = [''HVAC'', ''PLUMBING'', ''ROOFING'', ''ELECTRICAL''],
          locations = [''Phoenix, AZ'', ''Los Angeles, CA'', ''Houston, TX'', ''Miami, FL'',
                       ''Atlanta, GA'', ''Dallas, TX'', ''Chicago, IL'', ''New York, NY''],
          scraping_job.status = ''pending'', scraping_job.created_at = now \<rparr>]
   \<and> length (weeklyScrapingJobs (runWeeklyScraping now' (runWeeklyScraping now w)))
       = length (weeklyScrapingJobs w) + 2
   \<and> length (scraping_jobs (runWeeklyScraping now' (runWeeklyScraping now w)))
       = length (scraping_jobs w) + 2"
proof -
  have counts:
    "length (dailyScrapingJobs (runDailyScraping e now w)) = length (dailyScrapingJobs w) + 1"
    "length (dailyScrapingJobs (runDailyScraping e now' (runDailyScraping e now w)))
       = length (dailyScrapingJobs w) + 2"
    "length (scraping_jobs (runDailyScraping e now' (runDailyScraping e now w)))
       = length (scraping_jobs w) + 2"
    "length (weeklyScrapingJobs (runWeeklyScraping now' (runWeeklyScraping now w)))
       = length (weeklyScrapingJobs w) + 2"
    "length (scraping_jobs (runWeeklyScraping now' (runWeeklyScraping now w)))
       = length (scraping_jobs w) + 2"
    by (simp_all add: dailyScrapingJobs_def weeklyScrapingJobs_def jobs_runDailyScraping
        scraping_jobs_runDailyScraping jobs_runWeeklyScraping scraping_jobs_runWeeklyScraping)
  show ?thesis
    using counts jobs_runDailyScraping [of e now w] scraping_jobs_runDailyScraping [of e now w]
      jobs_runWeeklyScraping [of now w] scraping_jobs_runWeeklyScraping [of now w]
    by (intro conjI)
qed

text \<open>
  C8 as stated fails: two firings one second apart, from the empty state, leave two
  daily-scraping jobs in the scraping queue and two records in \<open>scraping_jobs\<close>.
\<close>

theorem runDailyScraping_twice_counterexample:
  "length (dailyScrapingJobs
     (runDailyScraping defaultEnv 1700000001000
        (runDailyScraping defaultEnv 1700000000000 emptyWorld))) = 2
   \<and> length (scraping_jobs
     (runDailyScraping defaultEnv 1700000001000
        (runDailyScraping defaultEnv 1700000000000 emptyWorld))) = 2"
  by (simp add: dailyScrapingJobs_def jobs_runDailyScraping scraping_jobs_runDailyScraping
      emptyWorld_def)

lemmas eval_defs = processSendGridEvent_def contactedWorld_def emptyWorld_def introMessage_def
  sendgridEvent_def scheduleFollowUpSequence_def followUpSchedule_def addJob_def validDate_def
  handleEmailOpened_def incrementEngagementScore_def recordLeadActivity_def updateLead_def
  updateLeadStatus_def updateMessage_def statusOf_def scoreOf_def enrichmentJobs_def Let_def

text \<open>
  An open event qualifies the lead and enqueues the enrichment job exactly when the
  lead has one opened message before this open is recorded.
\<close>

lemma open_event_effect:
  assumes "single (filter (\<lambda>m. message.message_id m = Some (sg_message_id ev)) (messages w)) = Some msg"
    and "leads w (message.lead_id msg) = Some row"
    and "validDate (sendgrid_event.timestamp ev * 1000)"
    and "sendgrid_event.event ev = ''open''"
  shows "statusOf (processSendGridEvent w now ev) (message.lead_id msg) =
           Some (if length (filter (\<lambda>m. message.lead_id m = message.lead_id msg
                                       \<and> opened_at m \<noteq> None) (messages w)) = 1
                 then Qualified else lead.status row)
       \<and> enrichmentJobs (processSendGridEvent w now ev) =
           enrichmentJobs w @
           (if length (filter (\<lambda>m. message.lead_id m = message.lead_id msg
                                    \<and> opened_at m \<noteq> None) (messages w)) = 1
            then [\<lparr> queue = EnrichmentQ, jobType = ''enrich-engaged-lead'',
                    data = EnrichData (message.lead_id msg) ''all'', job.priority = 7,
                    job.delay = 0 \<rparr>]
            else [])"
  using assms
  by (simp add: processSendGridEvent_def Let_def handleEmailOpened_def statusOf_def
      enrichmentJobs_def leads_updateLeadStatus leads_incrementEngagementScore addJob_def)

text \<open>The first, second and third open of the only message of a contacted lead.\<close>

lemma first_open_does_not_qualify:
  "statusOf (processSendGridEvent (contactedWorld Contacted (Some 92)) 1700000100000
       (sendgridEvent ''open'')) 7 = Some Contacted
   \<and> scoreOf (processSendGridEvent (contactedWorld Contacted (Some 92)) 1700000100000
       (sendgridEvent ''open'')) 7 = Some (Some 97)
   \<and> enrichmentJobs (processSendGridEvent (contactedWorld Contacted (Some 92)) 1700000100000
       (sendgridEvent ''open'')) = []"
  by (simp add: eval_defs)

lemma later_opens_qualify_again:
  "statusOf (processSendGridEvent (processSendGridEvent (contactedWorld Contacted (Some 92))
       1700000100000 (sendgridEvent ''open'')) 1700000200000 (sendgridEvent ''open'')) 7
     = Some Qualified
   \<and> length (enrichmentJobs (processSendGridEvent (processSendGridEvent
       (contactedWorld Contacted (Some 92))
       1700000100000 (sendgridEvent ''open'')) 1700000200000 (sendgridEvent ''open''))) = 1
   \<and> length (enrichmentJobs (processSendGridEvent (processSendGridEvent (processSendGridEvent
       (contactedWorld Contacted (Some 92))
       1700000100000 (sendgridEvent ''open'')) 1700000200000 (sendgridEvent ''open''))
       1700000300000 (sendgridEvent ''open''))) = 2"
  by (simp add: eval_defs)

text \<open>
  C6 at a failing input: the first open of the only message of a lead takes the score
  from 92 to 97, but the status stays contacted and no enrichment job is enqueued,
  because the opened messages are counted before this open is recorded. The second
  open of the same message finds one opened message, so it qualifies the lead and
  enqueues an enrichment job, and the third open enqueues another one.
\<close>

theorem first_open_not_qualified_later_opens_are:
  "(statusOf (processSendGridEvent (contactedWorld Contacted (Some 92)) 1700000100000
       (sendgridEvent ''open'')) 7 = Some Contacted
   \<and> scoreOf (processSendGridEvent (contactedWorld Contacted (Some 92)) 1700000100000
       (sendgridEvent ''open'')) 7 = Some (Some 97)
   \<and> enrichmentJobs (processSendGridEvent (contactedWorld Contacted (Some 92)) 1700000100000
       (sendgridEvent ''open'')) = [])
   \<and> (statusOf (processSendGridEvent (processSendGridEvent (contactedWorld Contacted (Some 92))
       1700000100000 (sendgridEvent ''open'')) 1700000200000 (sendgridEvent ''open'')) 7
     = Some Qualified
   \<and> length (enrichmentJobs (processSendGridEvent (processSendGridEvent
       (contactedWorld Contacted (Some 92))
       1700000100000 (sendgridEvent ''open'')) 1700000200000 (sendgridEvent ''open''))) = 1
   \<and> length (enrichmentJobs (processSendGridEvent (processSendGridEvent (processSendGridEvent
       (contactedWorld Contacted (Some 92))
       1700000100000 (sendgridEvent ''open'')) 1700000200000 (sendgridEvent ''open''))
       1700000300000 (sendgridEvent ''open''))) = 2)"
  by (rule conjI [OF first_open_does_not_qualify later_opens_qualify_again])

lemma sendgrid_bounce_effect:
  assumes "single (filter (\<lambda>m. message.message_id m = Some (sg_message_id ev)) (messages w)) = Some msg"
    and "leads w (message.lead_id msg) = Some row"
    and "sendgrid_event.event ev \<in> {''bounce'', ''dropped'', ''spam_report''}"
  shows "statusOf (processSendGridEvent w now ev) (message.lead_id msg) = Some Lost
       \<and> jobs (processSendGridEvent w now ev) = jobs w"
  using assms
  by (auto simp: processSendGridEvent_def Let_def statusOf_def leads_updateLeadStatus)

lemma mailgun_bounce_effect:
  assumes "mailgun_event.message_id ev = Some raw"
    and "single (filter (\<lambda>m. message.message_id m
                    = Some (filter (\<lambda>c. c \<noteq> CHR ''<'' \<and> c \<noteq> CHR ''>'') raw)) (messages w)) = Some msg"
    and "leads w (message.lead_id msg) = Some row"
    and "mailgun_event.event ev \<in> {''bounced'', ''failed'', ''complained''}"
  shows "statusOf (fst (handleMailgunWebhook w now ev)) (message.lead_id msg) = Some Lost
       \<and> jobs (fst (handleMailgunWebhook w now ev)) = jobs w"
  using assms
  by (auto simp: handleMailgunWebhook_def Let_def statusOf_def leads_updateLeadStatus)

text \<open>
  C4 (as amended). For a lead that exists, processing a bounce, dropped or spam-report
  event of SendGrid, or a bounced, failed or complained event of Mailgun, that resolves
  to a message of the lead sets the lead's status to lost and cancels nothing: every
  queued job stays in place, so the delayed jobs of the follow-up queue, the pending
  follow-up jobs of the lead among them, are the same as before the event.
\<close>

theorem bounce_sets_lost_keeps_followups:
  assumes "leads w lid = Some row"
  shows "(\<forall>msg. single (filter (\<lambda>m. message.message_id m = Some (sg_message_id ev)) (messages w))
                   = Some msg
               \<and> message.lead_id msg = lid
               \<and> sendgrid_event.event ev \<in> {''bounce'', ''dropped'', ''spam_report''} \<longrightarrow>
            statusOf (processSendGridEvent w now ev) lid = Some Lost
            \<and> jobs (processSendGridEvent w now ev) = jobs w
            \<and> getDelayed (processSendGridEvent w now ev) FollowupQ = getDelayed w FollowupQ)
       \<and> (\<forall>raw msg. mailgun_event.message_id mev = Some raw
               \<and> single (filter (\<lambda>m. message.message_id m
                    = Some (filter (\<lambda>c. c \<noteq> CHR ''<'' \<and> c \<noteq> CHR ''>'') raw)) (messages w)) = Some msg
               \<and> message.lead_id msg = lid
               \<and> mailgun_event.event mev \<in> {''bounced'', ''failed'', ''complained''} \<longrightarrow>
            statusOf (fst (handleMailgunWebhook w now mev)) lid = Some Lost
            \<and> jobs (fst (handleMailgunWebhook w now mev)) = jobs w
            \<and> getDelayed (fst (handleMailgunWebhook w now mev)) FollowupQ
                = getDelayed w FollowupQ)"
proof (intro conjI allI impI)
  fix msg
  assume a: "single (filter (\<lambda>m. message.message_id m = Some (sg_message_id ev)) (messages w))
                   = Some msg
               \<and> message.lead_id msg = lid
               \<and> sendgrid_event.event ev \<in> {''bounce'', ''dropped'', ''spam_report''}"
  then have row: "leads w (message.lead_id msg) = Some row" using assms by simp
  from a sendgrid_bounce_effect [OF _ row, of ev now]
  show "statusOf (processSendGridEvent w now ev) lid = Some Lost"
    and j: "jobs (processSendGridEvent w now ev) = jobs w" by auto
  show "getDelayed (processSendGridEvent w now ev) FollowupQ = getDelayed w FollowupQ"
    by (simp add: getDelayed_def j)
next
  fix raw msg
  assume a: "mailgun_event.message_id mev = Some raw
               \<and> single (filter (\<lambda>m. message.message_id m
                    = Some (filter (\<lambda>c. c \<noteq> CHR ''<'' \<and> c \<noteq> CHR ''>'') raw)) (messages w)) = Some msg
               \<and> message.lead_id msg = lid
               \<and> mailgun_event.event mev \<in> {''bounced'', ''failed'', ''complained''}"
  then have row: "leads w (message.lead_id msg) = Some row" using assms by simp
  from a mailgun_bounce_effect [OF _ _ row, of mev raw now]
  show "statusOf (fst (handleMailgunWebhook w now mev)) lid = Some Lost"
    and j: "jobs (fst (handleMailgunWebhook w now mev)) = jobs w" by auto
  show "getDelayed (fst (handleMailgunWebhook w now mev)) FollowupQ = getDelayed w FollowupQ"
    by (simp add: getDelayed_def j)
qed

lemma contactedWorld_found_mailgun:
  "mailgun_event.message_id (mailgunEvent kind) = Some ''<sg-1>''
   \<and> single (filter (\<lambda>m. message.message_id m
         = Some (filter (\<lambda>c. c \<noteq> CHR ''<'' \<and> c \<noteq> CHR ''>'') ''<sg-1>''))
         (messages (contactedWorld st sc))) = Some introMessage"
  by (simp add: contactedWorld_messages introMessage_def mailgunEvent_def)

lemma contactedWorld_row7:
  "leads (contactedWorld st sc) 7 =
     Some (emptyLead\<lparr> company_name := ''ABC Plumbing'', lead.status := st, lead_score := sc \<rparr>)"
  by (simp add: contactedWorld_leads)

text \<open>C4 (as amended) on a contacted lead with its three follow-up jobs pending.\<close>

theorem bounce_sets_lost_keeps_followups_witness:
  "leads (contactedWorld Contacted (Some 92)) 7 \<noteq> None
   \<and> statusOf (processSendGridEvent (contactedWorld Contacted (Some 92)) 1700000100000
        (sendgridEvent ''bounce'')) 7 = Some Lost
   \<and> length (getDelayed (processSendGridEvent (contactedWorld Contacted (Some 92)) 1700000100000
        (sendgridEvent ''bounce'')) FollowupQ) = 3
   \<and> statusOf (fst (handleMailgunWebhook (contactedWorld Contacted (Some 92)) 1700000100000
        (mailgunEvent ''complained''))) 7 = Some Lost
   \<and> length (getDelayed (fst (handleMailgunWebhook (contactedWorld Contacted (Some 92))
        1700000100000 (mailgunEvent ''complained''))) FollowupQ) = 3"
  using bounce_sets_lost_keeps_followups [where w = "contactedWorld Contacted (Some 92)"
      and lid = 7 and ev = "sendgridEvent ''bounce''" and now = 1700000100000
      and mev = "mailgunEvent ''complained''", OF contactedWorld_row7]
    contactedWorld_found [of "''bounce''" Contacted "Some 92"]
    contactedWorld_found_mailgun [of "''complained''" Contacted "Some 92"]
  by (simp add: contactedWorld_jobs contactedWorld_leads introMessage_def mailgunEvent_def
      getDelayed_def)

text \<open>
  C4 as stated fails: after the bounce event the lead is lost and its three follow-up
  jobs are still delayed in the follow-up queue.
\<close>

theorem bounce_leaves_followups_pending_counterexample:
  "statusOf (processSendGridEvent (contactedWorld Contacted (Some 92)) 1700000100000
        (sendgridEvent ''bounce'')) 7 = Some Lost
   \<and> length (filter (\<lambda>j. data_leadId (data j) = Some 7)
        (getDelayed (processSendGridEvent (contactedWorld Contacted (Some 92)) 1700000100000
           (sendgridEvent ''bounce'')) FollowupQ)) = 3"
  using sendgrid_bounce_effect [OF contactedWorld_found contactedWorld_row,
      of "''bounce''" Contacted "Some 92" 1700000100000]
  by (simp add: getDelayed_def contactedWorld_jobs introMessage_def)

text \<open>
  C2 (as amended). When an event resolves to a message of an existing lead and carries
  a valid timestamp, a delivered event sets the lead's status to contacted, a click
  event sets it to qualified, and a bounce, dropped or spam-report event sets it to
  lost, whatever the status was before (qualified, converted and lost included).
\<close>

theorem event_status_unconditional:
  assumes "single (filter (\<lambda>m. message.message_id m = Some (sg_message_id ev)) (messages w)) = Some msg"
    and "leads w (message.lead_id msg) = Some row"
    and "validDate (sendgrid_event.timestamp ev * 1000)"
  shows "(sendgrid_event.event ev = ''delivered'' \<longrightarrow>
            statusOf (processSendGridEvent w now ev) (message.lead_id msg) = Some Contacted)
       \<and> (sendgrid_event.event ev = ''click'' \<longrightarrow>
            statusOf (processSendGridEvent w now ev) (message.lead_id msg) = Some Qualified)
       \<and> (sendgrid_event.event ev \<in> {''bounce'', ''dropped'', ''spam_report''} \<longrightarrow>
            statusOf (processSendGridEvent w now ev) (message.lead_id msg) = Some Lost)"
  using processSendGridEvent_status [OF assms] .

text \<open>C2 (as amended) on a converted lead.\<close>

theorem event_status_unconditional_witness:
  "statusOf (contactedWorld Converted (Some 92)) 7 = Some Converted
   \<and> statusOf (processSendGridEvent (contactedWorld Converted (Some 92)) 1700000100000
        (sendgridEvent ''delivered'')) 7 = Some Contacted
   \<and> statusOf (processSendGridEvent (contactedWorld Converted (Some 92)) 1700000100000
        (sendgridEvent ''click'')) 7 = Some Qualified
   \<and> statusOf (processSendGridEvent (contactedWorld Converted (Some 92)) 1700000100000
        (sendgridEvent ''spam_report'')) 7 = Some Lost"
  using event_status_unconditional [OF contactedWorld_found contactedWorld_row sendgridEvent_valid,
      of "''delivered''" Converted "Some 92" 1700000100000]
    event_status_unconditional [OF contactedWorld_found contactedWorld_row sendgridEvent_valid,
      of "''click''" Converted "Some 92" 1700000100000]
    event_status_unconditional [OF contactedWorld_found contactedWorld_row sendgridEvent_valid,
      of "''spam_report''" Converted "Some 92" 1700000100000]
  by (simp add: statusOf_def contactedWorld_leads introMessage_def)

text \<open>
  C3 (as amended). Applying the same event twice gives every lead the same status and
  score as applying it once when the event is neither an open nor a click. An open
  (click) event that resolves to a message of an existing lead adds 5 (10) to the score,
  capped at 100, each time it is applied, so the second application adds the increment
  again.
\<close>

theorem replay_same_event:
  "(sendgrid_event.event ev \<noteq> ''open'' \<and> sendgrid_event.event ev \<noteq> ''click'' \<longrightarrow>
      leadState (processSendGridEvent (processSendGridEvent w now ev) now' ev)
        = leadState (processSendGridEvent w now ev))
   \<and> (\<forall>msg row points.
        single (filter (\<lambda>m. message.message_id m = Some (sg_message_id ev)) (messages w)) = Some msg
        \<and> leads w (message.lead_id msg) = Some row
        \<and> validDate (sendgrid_event.timestamp ev * 1000)
        \<and> (sendgrid_event.event ev = ''open'' \<and> points = 5
            \<or> sendgrid_event.event ev = ''click'' \<and> points = 10) \<longrightarrow>
        scoreOf (processSendGridEvent w now ev) (message.lead_id msg)
           = Some (Some (min ((case lead_score row of None \<Rightarrow> 0 | Some s \<Rightarrow> s) + points) 100))
        \<and> scoreOf (processSendGridEvent (processSendGridEvent w now ev) now' ev) (message.lead_id msg)
           = Some (Some (min (min ((case lead_score row of None \<Rightarrow> 0 | Some s \<Rightarrow> s) + points) 100
                              + points) 100)))"
  using replay_status_event [of ev w now now'] replay_increment [of ev w _ _ _ now now']
  by blast

text \<open>C3 (as amended) on a delivered event and on an open event, each applied twice.\<close>

theorem replay_same_event_witness:
  "leadState (processSendGridEvent (contactedWorld New (Some 50)) 1700000100000
        (sendgridEvent ''delivered'')) 7 = Some (Contacted, Some 50)
   \<and> leadState (processSendGridEvent (processSendGridEvent (contactedWorld New (Some 50))
        1700000100000 (sendgridEvent ''delivered'')) 1700000200000 (sendgridEvent ''delivered'')) 7
       = Some (Contacted, Some 50)
   \<and> scoreOf (processSendGridEvent (contactedWorld New (Some 50)) 1700000100000
        (sendgridEvent ''open'')) 7 = Some (Some 55)
   \<and> scoreOf (processSendGridEvent (processSendGridEvent (contactedWorld New (Some 50))
        1700000100000 (sendgridEvent ''open'')) 1700000200000 (sendgridEvent ''open'')) 7
       = Some (Some 60)"
proof -
  have d: "leadState (processSendGridEvent (contactedWorld New (Some 50)) 1700000100000
        (sendgridEvent ''delivered'')) 7 = Some (Contacted, Some 50)"
    using leadState_processSendGridEvent_found [OF contactedWorld_found,
        of "''delivered''" New "Some 50" 1700000100000]
    by (simp add: sendgridEvent_valid setStatusOf_def leadState_def contactedWorld_leads
        introMessage_def)
  show ?thesis
    using replay_same_event [of "sendgridEvent ''delivered''" "contactedWorld New (Some 50)"
        1700000100000 1700000200000]
      replay_same_event [of "sendgridEvent ''open''" "contactedWorld New (Some 50)"
        1700000100000 1700000200000]
      contactedWorld_found [of "''open''" New "Some 50"]
      contactedWorld_row [of New "Some 50"] sendgridEvent_valid [of "''open''"] d
    by (simp add: introMessage_def)
qed






lemma mailgunEvent_kind [simp]: "mailgun_event.event (mailgunEvent kind) = kind"
  by (simp add: mailgunEvent_def)


end
